theory Spec2Isabelle
  imports Complex_Main "HOL-Library.Sublist" "HOL-Library.List_Lexorder"
begin

section \<open>JavaScript values and coercions used by db.js\<close>

text \<open>
  Finite JavaScript numbers are modelled as exact rationals, integer-valued numbers as
  \<open>int\<close>. A number result that is not finite (\<open>NaN\<close>) is \<open>None\<close>; it reaches the
  store as JSON \<open>null\<close>. The rounding of IEEE doubles is outside the model.
  A value handed to the data layer by a caller is \<open>Undefined\<close> (also: the key is absent),
  a number, \<open>NaN\<close>, or a string (form fields).
\<close>

datatype jsval = Undefined | Num rat | NaN | Str string

text \<open>JavaScript truthiness, as used by \<open>if (x)\<close>, \<open>x ? a : b\<close> and \<open>x || d\<close>.\<close>

fun truthy :: "jsval \<Rightarrow> bool" where
  "truthy Undefined = False"
| "truthy (Num r) = (r \<noteq> 0)"
| "truthy NaN = False"
| "truthy (Str s) = (s \<noteq> [])"

definition isWhiteSpace :: "char \<Rightarrow> bool" where
  "isWhiteSpace c = (c \<in> set [CHR '' '', CHR 0x09, CHR 0x0A, CHR 0x0B, CHR 0x0C, CHR 0x0D])"

text \<open>Value of a character as a digit of the given radix (10 or 16).\<close>

definition digitVal :: "nat \<Rightarrow> char \<Rightarrow> nat option" where
  "digitVal radix c =
     (let n = (of_char c :: nat);
          v = (if 48 \<le> n \<and> n \<le> 57 then Some (n - 48)
               else if 97 \<le> n \<and> n \<le> 102 then Some (n - 87)
               else if 65 \<le> n \<and> n \<le> 70 then Some (n - 55)
               else None)
      in case v of None \<Rightarrow> None | Some d \<Rightarrow> if d < radix then Some d else None)"

fun readDigits :: "nat \<Rightarrow> string \<Rightarrow> nat list \<times> string" where
  "readDigits radix [] = ([], [])"
| "readDigits radix (c # cs) =
     (case digitVal radix c of
        None \<Rightarrow> ([], c # cs)
      | Some d \<Rightarrow> (case readDigits radix cs of (ds, r) \<Rightarrow> (d # ds, r)))"

definition natOfDigits :: "nat \<Rightarrow> nat list \<Rightarrow> nat" where
  "natOfDigits radix ds = foldl (\<lambda>a d. radix * a + d) 0 ds"

fun readSign :: "string \<Rightarrow> int \<times> string" where
  "readSign [] = (1, [])"
| "readSign (c # cs) =
     (if c = CHR ''-'' then (- 1, cs) else if c = CHR ''+'' then (1, cs) else (1, c # cs))"

fun hexPrefix :: "string \<Rightarrow> string option" where
  "hexPrefix (a # b # cs) =
     (if a = CHR ''0'' \<and> (b = CHR ''x'' \<or> b = CHR ''X'') then Some cs else None)"
| "hexPrefix cs = None"

text \<open>\<open>parseInt(string)\<close> with no radix argument: leading white space, a sign, an optional
  \<open>0x\<close> prefix, then the longest run of digits; \<open>NaN\<close> when there is none.\<close>

definition parseIntStr :: "string \<Rightarrow> int option" where
  "parseIntStr s =
     (case readSign (dropWhile isWhiteSpace s) of (sign, r) \<Rightarrow>
        (case hexPrefix r of
           Some h \<Rightarrow> (case readDigits 16 h of (ds, _) \<Rightarrow>
                        if ds = [] then None else Some (sign * int (natOfDigits 16 ds)))
         | None \<Rightarrow> (case readDigits 10 r of (ds, _) \<Rightarrow>
                        if ds = [] then None else Some (sign * int (natOfDigits 10 ds)))))"

text \<open>The optional exponent part \<open>e[+-]digits\<close> of a decimal literal; 0 when absent or
  incomplete.\<close>

fun readExponent :: "string \<Rightarrow> int" where
  "readExponent [] = 0"
| "readExponent (c # cs) =
     (if c = CHR ''e'' \<or> c = CHR ''E'' then
        (case readSign cs of (sign, r) \<Rightarrow>
           (case readDigits 10 r of (ds, _) \<Rightarrow>
              if ds = [] then 0 else sign * int (natOfDigits 10 ds)))
      else 0)"

definition pow10 :: "int \<Rightarrow> rat" where
  "pow10 e = (if 0 \<le> e then 10 ^ nat e else 1 / 10 ^ nat (- e))"

text \<open>\<open>parseFloat(string)\<close>: leading white space, a sign, digits with an optional fraction
  and exponent; \<open>NaN\<close> when no digit is found. (The literal \<open>Infinity\<close> has no finite
  value and is \<open>None\<close> as well.)\<close>

definition parseFloatStr :: "string \<Rightarrow> rat option" where
  "parseFloatStr s =
     (case readSign (dropWhile isWhiteSpace s) of (sign, r) \<Rightarrow>
        (case readDigits 10 r of (ip, r1) \<Rightarrow>
           (case (case r1 of
                    c # cs \<Rightarrow> if c = CHR ''.'' then readDigits 10 cs else ([], r1)
                  | [] \<Rightarrow> ([], r1)) of (fp, r2) \<Rightarrow>
              if ip = [] \<and> fp = [] then None
              else Some (of_int sign *
                         (of_nat (natOfDigits 10 ip) +
                          of_nat (natOfDigits 10 fp) / 10 ^ length fp) *
                         pow10 (readExponent r2)))))"

text \<open>\<open>parseInt\<close> of a number converts it to a string first; for a number written in
  plain decimal notation that truncates towards zero.\<close>

definition truncRat :: "rat \<Rightarrow> int" where
  "truncRat r = (if 0 \<le> r then \<lfloor>r\<rfloor> else \<lceil>r\<rceil>)"

fun parseInt :: "jsval \<Rightarrow> int option" where
  "parseInt Undefined = None"
| "parseInt (Num r) = Some (truncRat r)"
| "parseInt NaN = None"
| "parseInt (Str s) = parseIntStr s"

fun parseFloat :: "jsval \<Rightarrow> rat option" where
  "parseFloat Undefined = None"
| "parseFloat (Num r) = Some r"
| "parseFloat NaN = None"
| "parseFloat (Str s) = parseFloatStr s"

text \<open>A number (possibly \<open>NaN\<close>) seen again as a value.\<close>

definition numVal :: "rat option \<Rightarrow> jsval" where
  "numVal n = (case n of None \<Rightarrow> NaN | Some r \<Rightarrow> Num r)"

definition intVal :: "int option \<Rightarrow> jsval" where
  "intVal n = (case n of None \<Rightarrow> NaN | Some i \<Rightarrow> Num (of_int i))"

text \<open>\<open>ToNumber\<close> of a column value read from the store: \<open>null\<close> counts as 0 in
  arithmetic and comparisons.\<close>

definition toNumber :: "int option \<Rightarrow> int" where
  "toNumber v = (case v of None \<Rightarrow> 0 | Some n \<Rightarrow> n)"

text \<open>Decimal rendering of an integer, as a template literal does.\<close>

fun showNat :: "nat \<Rightarrow> string" where
  "showNat n =
     (if n < 10 then [char_of (48 + n)] else showNat (n div 10) @ [char_of (48 + n mod 10)])"

declare showNat.simps [simp del]

definition showInt :: "int \<Rightarrow> string" where
  "showInt i = (if i < 0 then CHR ''-'' # showNat (nat (- i)) else showNat (nat i))"


text \<open>Arithmetic on numbers that may be \<open>NaN\<close>: \<open>NaN\<close> propagates.\<close>

definition nadd :: "rat option \<Rightarrow> rat option \<Rightarrow> rat option" where
  "nadd a b = (case a of None \<Rightarrow> None | Some x \<Rightarrow> (case b of None \<Rightarrow> None | Some y \<Rightarrow> Some (x + y)))"

definition nmul :: "rat option \<Rightarrow> rat option \<Rightarrow> rat option" where
  "nmul a b = (case a of None \<Rightarrow> None | Some x \<Rightarrow> (case b of None \<Rightarrow> None | Some y \<Rightarrow> Some (x * y)))"

section \<open>The remote store\<close>

text \<open>
  db.js talks to a remote relational store through the Supabase client. The store is
  modelled as the four tables db.js writes, the session of the authentication client,
  the supply of fresh row ids, and a schedule of outcomes of the coming remote requests:
  each request takes the head of \<open>faults\<close>; \<open>Some msg\<close> makes the request fail with that
  message, \<open>None\<close> (or an exhausted schedule) lets it through. Columns that db.js never
  reads (time stamps, the row ids of sale lines and ledger entries) are left out. The ids
  the store assigns are opaque to db.js; they are natural numbers here, taken from
  \<open>next_id\<close>.
\<close>

datatype 'a result = Success 'a | Failure string

datatype auth_state = SessionError string | NoSession | Session string

record product =
  p_id :: nat
  p_name :: string
  p_category :: string
  p_price :: "rat option"
  p_cost_price :: "rat option"
  p_stock_quantity :: "int option"
  p_size :: string
  p_barcode :: string
  p_is_on_sale :: bool
  p_sale_price :: "rat option"
  p_is_active :: bool

record sale =
  s_id :: nat
  s_cashier_id :: string
  s_total :: "rat option"
  s_payment_method :: string

record sale_item =
  si_sale_id :: nat
  si_product_id :: nat
  si_product_name :: string
  si_quantity :: "int option"
  si_unit_price :: "rat option"
  si_total :: "rat option"

record inventory_transaction =
  t_product_id :: nat
  t_type :: string
  t_quantity :: "int option"
  t_user_id :: string
  t_notes :: string

record store =
  products :: "product list"
  sales :: "sale list"
  sale_items :: "sale_item list"
  inventory_transactions :: "inventory_transaction list"
  auth :: auth_state
  next_id :: nat
  faults :: "string option list"

definition remote :: "store \<Rightarrow> string option \<times> store" where
  "remote s = (case faults s of [] \<Rightarrow> (None, s) | f # fs \<Rightarrow> (f, s\<lparr>faults := fs\<rparr>))"

text \<open>\<open>.single()\<close>: exactly one row, otherwise an error.\<close>

definition single :: "'a list \<Rightarrow> 'a result" where
  "single rows =
     (case rows of
        [r] \<Rightarrow> Success r
      | _ \<Rightarrow> Failure ''JSON object requested, multiple (or no) rows returned'')"

subsection \<open>Pattern matching of \<open>ilike\<close>\<close>

definition lower :: "char \<Rightarrow> char" where
  "lower c = (let n = (of_char c :: nat) in if 65 \<le> n \<and> n \<le> 90 then char_of (n + 32) else c)"

text \<open>SQL \<open>LIKE\<close>: \<open>%\<close> (and its request alias \<open>*\<close>) matches any run of characters,
  \<open>_\<close> any one character, a backslash takes the next pattern character literally.\<close>

fun likeMatch :: "string \<Rightarrow> string \<Rightarrow> bool" where
  "likeMatch [] v = (v = [])"
| "likeMatch (p # ps) v =
     (if p = CHR ''%'' \<or> p = CHR ''*'' then
        (likeMatch ps v \<or> (case v of [] \<Rightarrow> False | c # vs \<Rightarrow> likeMatch (p # ps) vs))
      else if p = CHR ''_'' then
        (case v of [] \<Rightarrow> False | c # vs \<Rightarrow> likeMatch ps vs)
      else if p = CHR 0x5C then
        (case ps of [] \<Rightarrow> False
         | q # qs \<Rightarrow> (case v of [] \<Rightarrow> False | c # vs \<Rightarrow> c = q \<and> likeMatch qs vs))
      else
        (case v of [] \<Rightarrow> False | c # vs \<Rightarrow> c = p \<and> likeMatch ps vs))"

definition ilike :: "string \<Rightarrow> string \<Rightarrow> bool" where
  "ilike pattern v = likeMatch (map lower pattern) (map lower v)"

text \<open>The characters with a meaning of their own in a pattern.\<close>

definition likeSpecial :: "char \<Rightarrow> bool" where
  "likeSpecial c = (c = CHR ''%'' \<or> c = CHR ''*'' \<or> c = CHR ''_'' \<or> c = CHR 0x5C)"

section \<open>Products\<close>

record filters =
  f_category :: "string option"
  f_search :: "string option"
  f_activeOnly :: "bool option"

text \<open>\<open>getProducts\<close>: the query is ordered by name first, then narrowed filter by filter.
  The collation of the store's \<open>ORDER BY\<close> is the parameter \<open>coll\<close>.\<close>

definition getProducts ::
  "(string \<Rightarrow> 'o::linorder) \<Rightarrow> filters \<Rightarrow> store \<Rightarrow> product list result \<times> store" where
  "getProducts coll fl s =
     (let query = sort_key (\<lambda>p. coll (p_name p)) (products s);
          query = (case f_category fl of
                     Some c \<Rightarrow> if c \<noteq> [] \<and> c \<noteq> ''All''
                               then filter (\<lambda>p. p_category p = c) query else query
                   | None \<Rightarrow> query);
          query = (case f_search fl of
                     Some q \<Rightarrow> if q \<noteq> []
                               then filter (\<lambda>p. ilike (''%'' @ q @ ''%'') (p_name p)) query
                               else query
                   | None \<Rightarrow> query);
          query = (if f_activeOnly fl \<noteq> Some False
                   then filter (\<lambda>p. p_is_active p) query else query)
      in case remote s of
           (Some e, s') \<Rightarrow> (Failure e, s')
         | (None, s') \<Rightarrow> (Success query, s'))"

definition getProductById :: "nat \<Rightarrow> store \<Rightarrow> product result \<times> store" where
  "getProductById productId s =
     (case remote s of
        (Some e, s') \<Rightarrow> (Failure e, s')
      | (None, s') \<Rightarrow> (single (filter (\<lambda>p. p_id p = productId) (products s')), s'))"

definition getProductByBarcode :: "string \<Rightarrow> store \<Rightarrow> product result \<times> store" where
  "getProductByBarcode barcode s =
     (case remote s of
        (Some e, s') \<Rightarrow> (Failure e, s')
      | (None, s') \<Rightarrow> (single (filter (\<lambda>p. p_barcode p = barcode) (products s')), s'))"

text \<open>\<open>checkBarcodeExists\<close>; \<open>excludeProductId\<close> is \<open>null\<close> by default.\<close>

definition checkBarcodeExists :: "string \<Rightarrow> nat option \<Rightarrow> store \<Rightarrow> bool result \<times> store" where
  "checkBarcodeExists barcode excludeProductId s =
     (let query = filter (\<lambda>p. p_is_active p) (filter (\<lambda>p. p_barcode p = barcode) (products s));
          query = (case excludeProductId of
                     Some x \<Rightarrow> filter (\<lambda>p. p_id p \<noteq> x) query
                   | None \<Rightarrow> query)
      in case remote s of
           (Some e, s') \<Rightarrow> (Failure e, s')
         | (None, s') \<Rightarrow> (Success (length query > 0), s'))"

subsection \<open>Writes to the products table\<close>

record product_data =
  pd_name :: string
  pd_category :: string
  pd_price :: jsval
  pd_cost_price :: jsval
  pd_stock_quantity :: jsval
  pd_size :: string
  pd_barcode :: string
  pd_is_on_sale :: "bool option"
  pd_sale_price :: jsval

text \<open>The row \<open>createProduct\<close> sends to the store; the store assigns the id.\<close>

definition newProductRow :: "product_data \<Rightarrow> nat \<Rightarrow> product" where
  "newProductRow productData i =
     \<lparr> p_id = i,
       p_name = pd_name productData,
       p_category = pd_category productData,
       p_price = parseFloat (pd_price productData),
       p_cost_price = (if truthy (pd_cost_price productData)
                       then parseFloat (pd_cost_price productData) else None),
       p_stock_quantity = Some (case parseInt (pd_stock_quantity productData) of
                                  None \<Rightarrow> 0 | Some n \<Rightarrow> n),
       p_size = pd_size productData,
       p_barcode = pd_barcode productData,
       p_is_on_sale = (case pd_is_on_sale productData of None \<Rightarrow> False | Some b \<Rightarrow> b),
       p_sale_price = (if truthy (pd_sale_price productData)
                       then parseFloat (pd_sale_price productData) else None),
       p_is_active = True \<rparr>"

definition insertProduct :: "product_data \<Rightarrow> store \<Rightarrow> product result \<times> store" where
  "insertProduct productData s =
     (case remote s of
        (Some e, s') \<Rightarrow> (Failure e, s')
      | (None, s') \<Rightarrow>
          (let row = newProductRow productData (next_id s')
           in (Success row, s'\<lparr>products := products s' @ [row], next_id := Suc (next_id s')\<rparr>)))"

text \<open>A partial field set: \<open>None\<close> and \<open>Undefined\<close> are keys that are absent.\<close>

record product_updates =
  u_name :: "string option"
  u_category :: "string option"
  u_price :: jsval
  u_cost_price :: jsval
  u_stock_quantity :: jsval
  u_size :: "string option"
  u_barcode :: "string option"
  u_is_on_sale :: "bool option"
  u_sale_price :: jsval
  u_is_active :: "bool option"

definition noUpdates :: product_updates where
  "noUpdates = \<lparr> u_name = None, u_category = None, u_price = Undefined,
                  u_cost_price = Undefined, u_stock_quantity = Undefined, u_size = None,
                  u_barcode = None, u_is_on_sale = None, u_sale_price = Undefined,
                  u_is_active = None \<rparr>"

text \<open>"Handle numeric fields" of \<open>updateProduct\<close>.\<close>

definition coerceUpdates :: "product_updates \<Rightarrow> product_updates" where
  "coerceUpdates updates =
     (let updateData = updates;
          updateData = (if truthy (u_price updateData)
                        then updateData\<lparr>u_price := numVal (parseFloat (u_price updateData))\<rparr>
                        else updateData);
          updateData = (if truthy (u_cost_price updateData)
                        then updateData\<lparr>u_cost_price := numVal (parseFloat (u_cost_price updateData))\<rparr>
                        else updateData);
          updateData = (if u_stock_quantity updateData \<noteq> Undefined
                        then updateData\<lparr>u_stock_quantity := intVal (parseInt (u_stock_quantity updateData))\<rparr>
                        else updateData);
          updateData = (if truthy (u_sale_price updateData)
                        then updateData\<lparr>u_sale_price := numVal (parseFloat (u_sale_price updateData))\<rparr>
                        else updateData)
      in updateData)"

text \<open>What the store does with a value sent for a numeric column: an absent key keeps the
  old value, \<open>NaN\<close> arrives as \<open>null\<close>, a string that is not a number (after the coercions
  only the empty string can be left) and a fraction for the integer column are refused.\<close>

fun setNumeric :: "jsval \<Rightarrow> rat option \<Rightarrow> rat option" where
  "setNumeric Undefined old = old"
| "setNumeric (Num r) old = Some r"
| "setNumeric NaN old = None"
| "setNumeric (Str v) old = old"

fun setInteger :: "jsval \<Rightarrow> int option \<Rightarrow> int option" where
  "setInteger Undefined old = old"
| "setInteger (Num r) old = Some (truncRat r)"
| "setInteger NaN old = None"
| "setInteger (Str v) old = old"

fun castNumeric :: "jsval \<Rightarrow> bool" where
  "castNumeric (Str v) = False"
| "castNumeric v = True"

fun castInteger :: "jsval \<Rightarrow> bool" where
  "castInteger (Str v) = False"
| "castInteger (Num r) = (of_int (truncRat r) = r)"
| "castInteger v = True"

definition setCol :: "'a option \<Rightarrow> 'a \<Rightarrow> 'a" where
  "setCol v old = (case v of None \<Rightarrow> old | Some x \<Rightarrow> x)"

definition applyUpdate :: "product_updates \<Rightarrow> product \<Rightarrow> product" where
  "applyUpdate u p =
     p\<lparr> p_name := setCol (u_name u) (p_name p),
        p_category := setCol (u_category u) (p_category p),
        p_price := setNumeric (u_price u) (p_price p),
        p_cost_price := setNumeric (u_cost_price u) (p_cost_price p),
        p_stock_quantity := setInteger (u_stock_quantity u) (p_stock_quantity p),
        p_size := setCol (u_size u) (p_size p),
        p_barcode := setCol (u_barcode u) (p_barcode p),
        p_is_on_sale := setCol (u_is_on_sale u) (p_is_on_sale p),
        p_sale_price := setNumeric (u_sale_price u) (p_sale_price p),
        p_is_active := setCol (u_is_active u) (p_is_active p) \<rparr>"

text \<open>\<open>from('products').update(updateData).eq('id', productId).select()\<close>: the rows
  changed are returned.\<close>

definition updateRows :: "nat \<Rightarrow> product_updates \<Rightarrow> store \<Rightarrow> product list result \<times> store" where
  "updateRows productId u s =
     (case remote s of
        (Some e, s') \<Rightarrow> (Failure e, s')
      | (None, s') \<Rightarrow>
          if castNumeric (u_price u) \<and> castNumeric (u_cost_price u) \<and>
             castInteger (u_stock_quantity u) \<and> castNumeric (u_sale_price u)
          then (Success (map (applyUpdate u) (filter (\<lambda>p. p_id p = productId) (products s'))),
                s'\<lparr>products := map (\<lambda>p. if p_id p = productId then applyUpdate u p else p)
                                     (products s')\<rparr>)
          else (Failure ''invalid input syntax for type numeric'', s'))"

text \<open>\<open>data[0]\<close> of the rows returned: undefined when no row has the id.\<close>

definition firstRow :: "'a list \<Rightarrow> 'a option" where
  "firstRow rows = (case rows of [] \<Rightarrow> None | r # _ \<Rightarrow> Some r)"

definition updateProduct ::
  "nat \<Rightarrow> product_updates \<Rightarrow> store \<Rightarrow> product option result \<times> store" where
  "updateProduct productId updates s =
     (case updateRows productId (coerceUpdates updates) s of
        (Failure e, s') \<Rightarrow> (Failure e, s')
      | (Success data, s') \<Rightarrow> (Success (firstRow data), s'))"

definition deleteProduct :: "nat \<Rightarrow> store \<Rightarrow> product option result \<times> store" where
  "deleteProduct productId s =
     (case updateRows productId (noUpdates\<lparr>u_is_active := Some False\<rparr>) s of
        (Failure e, s') \<Rightarrow> (Failure e, s')
      | (Success data, s') \<Rightarrow> (Success (firstRow data), s'))"

section \<open>Inventory ledger\<close>

record transaction_data =
  td_product_id :: nat
  td_type :: string
  td_quantity :: jsval
  td_notes :: string

text \<open>\<open>createInventoryTransaction\<close>. The acting user is always the one of the session;
  a \<open>user_id\<close> passed by the caller is not read.\<close>

definition createInventoryTransaction ::
  "transaction_data \<Rightarrow> store \<Rightarrow> inventory_transaction result \<times> store" where
  "createInventoryTransaction transactionData s =
     (case auth s of
        SessionError e \<Rightarrow> (Failure e, s)
      | NoSession \<Rightarrow> (Failure ''User not authenticated'', s)
      | Session user \<Rightarrow>
          (let transaction = \<lparr> t_product_id = td_product_id transactionData,
                                 t_type = td_type transactionData,
                                 t_quantity = parseInt (td_quantity transactionData),
                                 t_user_id = user,
                                 t_notes = td_notes transactionData \<rparr>
           in case remote s of
                (Some e, s') \<Rightarrow> (Failure e, s')
              | (None, s') \<Rightarrow>
                  (Success transaction,
                   s'\<lparr>inventory_transactions := inventory_transactions s' @ [transaction]\<rparr>)))"

text \<open>\<open>createProduct\<close>: the ledger entry for the initial stock is a second call, whose
  result is not looked at.\<close>

definition createProduct :: "product_data \<Rightarrow> store \<Rightarrow> product result \<times> store" where
  "createProduct productData s =
     (case insertProduct productData s of
        (Failure e, s1) \<Rightarrow> (Failure e, s1)
      | (Success row, s1) \<Rightarrow>
          (case parseInt (pd_stock_quantity productData) of
             None \<Rightarrow> (Success row, s1)
           | Some n \<Rightarrow>
               if n > 0 then
                 (case createInventoryTransaction
                         \<lparr> td_product_id = p_id row, td_type = ''restock'',
                           td_quantity = intVal (parseInt (pd_stock_quantity productData)),
                           td_notes = ''Initial stock'' \<rparr> s1 of
                    (_, s2) \<Rightarrow> (Success row, s2))
               else (Success row, s1)))"

text \<open>\<open>restockProduct\<close>; \<open>quantity\<close> is an integer number, and \<open>notes\<close> defaults to the
  empty string.\<close>

definition restockProduct :: "nat \<Rightarrow> int \<Rightarrow> string \<Rightarrow> store \<Rightarrow> int result \<times> store" where
  "restockProduct productId quantity notes s =
     (case getProductById productId s of
        (Failure e, s1) \<Rightarrow> (Failure ''Product not found'', s1)
      | (Success product, s1) \<Rightarrow>
          (let newStock = toNumber (p_stock_quantity product) + truncRat (of_int quantity)
           in case updateProduct productId
                     (noUpdates\<lparr>u_stock_quantity := Num (of_int newStock)\<rparr>) s1 of
                (_, s2) \<Rightarrow>
                  (case createInventoryTransaction
                          \<lparr> td_product_id = productId, td_type = ''restock'',
                            td_quantity = Num (of_int (truncRat (of_int quantity))),
                            td_notes = (if notes \<noteq> [] then notes
                                        else ''Restocked '' @ showInt quantity @ '' units'') \<rparr> s2 of
                     (_, s3) \<Rightarrow> (Success newStock, s3))))"

section \<open>Sales\<close>

text \<open>A cart entry as \<open>addToCart\<close> builds it: the price is a number, the quantity an
  integer number.\<close>

record cart_item =
  i_id :: nat
  i_name :: string
  i_price :: rat
  i_quantity :: int

record sale_data =
  sd_items :: "cart_item list"
  sd_total :: rat
  sd_payment_method :: string

record sale_result =
  r_sale :: sale
  r_items :: "sale_item list"
  r_saleId :: nat

definition insertSale :: "string \<Rightarrow> rat option \<Rightarrow> string \<Rightarrow> store \<Rightarrow> sale result \<times> store" where
  "insertSale cashier amount method s =
     (case remote s of
        (Some e, s') \<Rightarrow> (Failure e, s')
      | (None, s') \<Rightarrow>
          (let row = \<lparr> s_id = next_id s', s_cashier_id = cashier, s_total = amount,
                       s_payment_method = method \<rparr>
           in (Success row, s'\<lparr>sales := sales s' @ [row], next_id := Suc (next_id s')\<rparr>)))"

definition insertSaleItems :: "sale_item list \<Rightarrow> store \<Rightarrow> string option \<times> store" where
  "insertSaleItems rows s =
     (case remote s of
        (Some e, s') \<Rightarrow> (Some e, s')
      | (None, s') \<Rightarrow> (None, s'\<lparr>sale_items := sale_items s' @ rows\<rparr>))"

definition saleItemOf :: "nat \<Rightarrow> cart_item \<Rightarrow> sale_item" where
  "saleItemOf saleId item =
     \<lparr> si_sale_id = saleId,
       si_product_id = i_id item,
       si_product_name = i_name item,
       si_quantity = parseInt (Num (of_int (i_quantity item))),
       si_unit_price = parseFloat (Num (i_price item)),
       si_total = nmul (parseFloat (Num (i_price item)))
                       (map_option of_int (parseInt (Num (of_int (i_quantity item))))) \<rparr>"

text \<open>The loop "update product stock and create inventory transactions". Neither the
  result of \<open>updateProduct\<close> nor that of \<open>createInventoryTransaction\<close> is looked at.\<close>

fun stockLoop :: "nat \<Rightarrow> cart_item list \<Rightarrow> store \<Rightarrow> store" where
  "stockLoop saleId [] s = s"
| "stockLoop saleId (item # rest) s =
     (case getProductById (i_id item) s of
        (Success product, s1) \<Rightarrow>
          (let newStock = toNumber (p_stock_quantity product) - i_quantity item
           in case updateProduct (i_id item)
                     (noUpdates\<lparr>u_stock_quantity := Num (of_int newStock)\<rparr>) s1 of
                (_, s2) \<Rightarrow>
                  (case createInventoryTransaction
                          \<lparr> td_product_id = i_id item, td_type = ''sale'',
                            td_quantity = Num (of_int (- i_quantity item)),
                            td_notes = ''Sale '' @ showNat saleId \<rparr> s2 of
                     (_, s3) \<Rightarrow> stockLoop saleId rest s3))
      | (Failure e, s1) \<Rightarrow> stockLoop saleId rest s1)"

definition createSale :: "sale_data \<Rightarrow> store \<Rightarrow> sale_result result \<times> store" where
  "createSale saleData s =
     (case auth s of
        SessionError e \<Rightarrow> (Failure e, s)
      | NoSession \<Rightarrow> (Failure ''User not authenticated'', s)
      | Session user \<Rightarrow>
          (case insertSale user (parseFloat (Num (sd_total saleData)))
                  (sd_payment_method saleData) s of
             (Failure e, s1) \<Rightarrow> (Failure e, s1)
           | (Success saleRecord, s1) \<Rightarrow>
               (let saleId = s_id saleRecord;
                    saleItems = map (saleItemOf saleId) (sd_items saleData)
                in case insertSaleItems saleItems s1 of
                     (Some e, s2) \<Rightarrow> (Failure e, s2)
                   | (None, s2) \<Rightarrow>
                       (Success \<lparr> r_sale = saleRecord, r_items = saleItems, r_saleId = saleId \<rparr>,
                        stockLoop saleId (sd_items saleData) s2))))"

text \<open>\<open>POSApp.processPayment\<close> (pos.js) builds the sale data from the cart and calls
  \<open>createSale\<close>; its effects on the screen are left out.\<close>

definition cartTotal :: "cart_item list \<Rightarrow> rat" where
  "cartTotal cart = foldl (\<lambda>sum item. sum + i_price item * of_int (i_quantity item)) 0 cart"

definition processPayment :: "cart_item list \<Rightarrow> string \<Rightarrow> store \<Rightarrow> sale_result result \<times> store" where
  "processPayment cart paymentMethod s =
     createSale \<lparr> sd_items = cart, sd_total = cartTotal cart,
                  sd_payment_method = paymentMethod \<rparr> s"

section \<open>Analytics\<close>

record inventory_summary =
  totalInventory :: int
  totalStockValue :: "rat option"
  totalCostValue :: "rat option"
  lowStockCount :: nat
  outOfStockCount :: nat
  lowStockItems :: "int option list"

text \<open>\<open>getInventorySummary\<close>. The query selects the stock and the two prices only, so the
  \<open>name\<close> of a low-stock item is undefined in the result and an item is its stock here.\<close>

definition summarize :: "product list \<Rightarrow> inventory_summary" where
  "summarize ps =
     (let lowStock = filter (\<lambda>p. toNumber (p_stock_quantity p) < 10) ps;
          outOfStock = filter (\<lambda>p. p_stock_quantity p = Some 0) ps
      in \<lparr> totalInventory = foldl (\<lambda>sum p. sum + toNumber (p_stock_quantity p)) 0 ps,
           totalStockValue =
             foldl (\<lambda>sum p. nadd sum (nmul (Some (of_int (toNumber (p_stock_quantity p))))
                                             (p_price p))) (Some 0) ps,
           totalCostValue =
             foldl (\<lambda>sum p. nadd sum (nmul (Some (of_int (toNumber (p_stock_quantity p))))
                                             (Some (case p_cost_price p of None \<Rightarrow> 0 | Some c \<Rightarrow> c))))
                   (Some 0) ps,
           lowStockCount = length lowStock,
           outOfStockCount = length outOfStock,
           lowStockItems = map p_stock_quantity lowStock \<rparr>)"

definition getInventorySummary :: "store \<Rightarrow> inventory_summary result \<times> store" where
  "getInventorySummary s =
     (case remote s of
        (Some e, s') \<Rightarrow> (Failure e, s')
      | (None, s') \<Rightarrow> (Success (summarize (filter (\<lambda>p. p_is_active p) (products s'))), s'))"

section \<open>The stock loop, request by request\<close>

text \<open>What one round of the stock loop of \<open>createSale\<close> amounts to when every request goes
  through and the session is that of \<open>user\<close> (proved below as \<open>stockLoop_Cons_no_fault\<close>).\<close>

definition stockStep :: "nat \<Rightarrow> string \<Rightarrow> cart_item \<Rightarrow> store \<Rightarrow> store" where
  "stockStep k user item s =
     (case single (filter (\<lambda>p. p_id p = i_id item) (products s)) of
        Failure e \<Rightarrow> s
      | Success product \<Rightarrow>
          s\<lparr>products :=
               map (\<lambda>p. if p_id p = i_id item
                        then p\<lparr>p_stock_quantity :=
                                 Some (toNumber (p_stock_quantity product) - i_quantity item)\<rparr>
                        else p) (products s),
             inventory_transactions := inventory_transactions s @
               [\<lparr> t_product_id = i_id item, t_type = ''sale'',
                  t_quantity = Some (- i_quantity item), t_user_id = user,
                  t_notes = ''Sale '' @ showNat k \<rparr>]\<rparr>)"

text \<open>
  Two \<open>createSale\<close> calls at once. Between two requests of one call the store can serve a
  request of the other, so a call inside its stock loop is a client with a program
  counter: about to read the product of the first cart entry, about to write the stock
  computed from the product it read, or about to append the ledger entry. \<open>clientStep\<close>
  performs the one request that is due, under the session of that client. A schedule
  says whose turn it is (\<open>False\<close>: the first client, \<open>True\<close>: the second).
\<close>

datatype pc = AtRead | AtUpdate product | AtLedger

record client =
  cl_auth :: auth_state
  cl_saleId :: nat
  cl_cart :: "cart_item list"
  cl_pc :: pc

definition clientStep :: "client \<Rightarrow> store \<Rightarrow> client \<times> store" where
  "clientStep c s0 =
     (let s = s0\<lparr>auth := cl_auth c\<rparr> in
      case cl_cart c of
        [] \<Rightarrow> (c, s0)
      | item # rest \<Rightarrow>
          (case cl_pc c of
             AtRead \<Rightarrow>
               (case getProductById (i_id item) s of
                  (Success product, s1) \<Rightarrow> (c\<lparr>cl_pc := AtUpdate product\<rparr>, s1)
                | (Failure e, s1) \<Rightarrow> (c\<lparr>cl_cart := rest\<rparr>, s1))
           | AtUpdate product \<Rightarrow>
               (let newStock = toNumber (p_stock_quantity product) - i_quantity item
                in case updateProduct (i_id item)
                          (noUpdates\<lparr>u_stock_quantity := Num (of_int newStock)\<rparr>) s of
                     (_, s2) \<Rightarrow> (c\<lparr>cl_pc := AtLedger\<rparr>, s2))
           | AtLedger \<Rightarrow>
               (case createInventoryTransaction
                       \<lparr> td_product_id = i_id item, td_type = ''sale'',
                         td_quantity = Num (of_int (- i_quantity item)),
                         td_notes = ''Sale '' @ showNat (cl_saleId c) \<rparr> s of
                  (_, s3) \<Rightarrow> (c\<lparr>cl_cart := rest, cl_pc := AtRead\<rparr>, s3))))"

fun runSchedule :: "bool list \<Rightarrow> client \<Rightarrow> client \<Rightarrow> store \<Rightarrow> client \<times> client \<times> store" where
  "runSchedule [] a b s = (a, b, s)"
| "runSchedule (turn # turns) a b s =
     (if turn then (case clientStep b s of (b', s') \<Rightarrow> runSchedule turns a b' s')
      else (case clientStep a s of (a', s') \<Rightarrow> runSchedule turns a' b s'))"

fun runAlone :: "nat \<Rightarrow> client \<Rightarrow> store \<Rightarrow> client \<times> store" where
  "runAlone 0 c s = (c, s)"
| "runAlone (Suc n) c s = (case clientStep c s of (c', s') \<Rightarrow> runAlone n c' s')"

definition saleClient :: "string \<Rightarrow> nat \<Rightarrow> cart_item list \<Rightarrow> client" where
  "saleClient user saleId cart =
     \<lparr> cl_auth = Session user, cl_saleId = saleId, cl_cart = cart, cl_pc = AtRead \<rparr>"

section \<open>Example stores\<close>

definition stockedProduct :: "nat \<Rightarrow> string \<Rightarrow> int \<Rightarrow> product" where
  "stockedProduct i nm stock =
     \<lparr> p_id = i, p_name = nm, p_category = ''Shirts'', p_price = Some 10,
       p_cost_price = Some 4, p_stock_quantity = Some stock, p_size = ''M'',
       p_barcode = ''LIM'' @ showNat i, p_is_on_sale = False, p_sale_price = None,
       p_is_active = True \<rparr>"

definition emptyStore :: store where
  "emptyStore = \<lparr> products = [], sales = [], sale_items = [], inventory_transactions = [],
                   auth = Session ''cashier-1'', next_id = 1, faults = [] \<rparr>"

definition summaryStore :: store where
  "summaryStore = emptyStore\<lparr>products :=
      [stockedProduct 1 ''Belt'' 0, stockedProduct 2 ''Cap'' 5, stockedProduct 3 ''Jeans'' 20],
      next_id := 4\<rparr>"

text \<open>Two products created through the form with the same barcode, the first one deleted
  before the second is created.\<close>

definition shirtData :: "string \<Rightarrow> jsval \<Rightarrow> product_data" where
  "shirtData nm stock =
     \<lparr> pd_name = nm, pd_category = ''Shirts'', pd_price = Str ''19.99'',
       pd_cost_price = Str '''', pd_stock_quantity = stock, pd_size = ''M'',
       pd_barcode = ''LIM013'', pd_is_on_sale = None, pd_sale_price = Undefined \<rparr>"

definition barcodeStore :: store where
  "barcodeStore =
     snd (createProduct (shirtData ''Blue Cotton Shirt'' (Str ''10''))
       (snd (deleteProduct 1
         (snd (createProduct (shirtData ''Old Shirt'' (Str '''')) emptyStore)))))"

text \<open>The summary store when the next request goes through and the two after it fail.\<close>

definition restockStore :: store where
  "restockStore = summaryStore\<lparr>faults := [None, Some ''connection lost'', Some ''connection lost'']\<rparr>"

text \<open>A sale of two caps from the summary store, and what it returns and leaves behind when
  every request goes through; the total is the one the caller passes.\<close>

definition capCart :: "cart_item list" where
  "capCart = [\<lparr> i_id = 2, i_name = ''Cap'', i_price = 10, i_quantity = 2 \<rparr>]"

definition capSaleData :: sale_data where
  "capSaleData = \<lparr> sd_items = capCart, sd_total = cartTotal capCart, sd_payment_method = ''Cash'' \<rparr>"

definition capSaleResult :: "rat \<Rightarrow> sale_result" where
  "capSaleResult amount =
     \<lparr> r_sale = \<lparr> s_id = 4, s_cashier_id = ''cashier-1'', s_total = Some amount,
                    s_payment_method = ''Cash'' \<rparr>,
       r_items = [\<lparr> si_sale_id = 4, si_product_id = 2, si_product_name = ''Cap'',
                     si_quantity = Some 2, si_unit_price = Some 10, si_total = Some 20 \<rparr>],
       r_saleId = 4 \<rparr>"

definition capSaleStore :: "rat \<Rightarrow> store" where
  "capSaleStore amount =
     summaryStore
       \<lparr> products := [stockedProduct 1 ''Belt'' 0, stockedProduct 2 ''Cap'' 3,
                       stockedProduct 3 ''Jeans'' 20],
         sales := [r_sale (capSaleResult amount)],
         sale_items := r_items (capSaleResult amount),
         inventory_transactions :=
           [\<lparr> t_product_id = 2, t_type = ''sale'', t_quantity = Some (- 2),
              t_user_id = ''cashier-1'', t_notes = ''Sale 4'' \<rparr>],
         next_id := 5 \<rparr>"

text \<open>The summary store when the two writes of the first round of the stock loop fail.\<close>

definition lossyStore :: store where
  "lossyStore =
     summaryStore\<lparr>faults := [None, None, None, Some ''connection lost'', Some ''connection lost'']\<rparr>"

text \<open>Byte-wise order of names as the collation, and two searches.\<close>

definition nameOrder :: "string \<Rightarrow> nat list" where
  "nameOrder nm = map of_char nm"

definition shirtSearch :: filters where
  "shirtSearch = \<lparr> f_category = Some ''Shirts'', f_search = Some ''EA'', f_activeOnly = None \<rparr>"

definition barcodeSearch :: filters where
  "barcodeSearch = \<lparr> f_category = None, f_search = Some ''lim2'', f_activeOnly = None \<rparr>"

section \<open>Inventory summary\<close>

text \<open>
  C3. The claim: \<open>getInventorySummary\<close> counts as low stock the products with
  \<open>0 < stock \<le> 10\<close>, and on the stocks 0, 5 and 20 reports one low-stock item, one item
  out of stock and 25 units. The code filters with \<open>stock_quantity < 10\<close>: on these
  products it reports two low-stock items (the 0 and the 5), one out of stock, 25 units.
\<close>

theorem getInventorySummary_example:
  "fst (getInventorySummary summaryStore) =
     Success \<lparr> totalInventory = 25, totalStockValue = Some 250, totalCostValue = Some 100,
               lowStockCount = 2, outOfStockCount = 1, lowStockItems = [Some 0, Some 5] \<rparr>"
  by (simp add: getInventorySummary_def summaryStore_def emptyStore_def remote_def
      summarize_def stockedProduct_def toNumber_def nadd_def nmul_def)

section \<open>Basic facts about the store and the coercions\<close>

lemma remote_cases:
  "remote s = (f, s') \<Longrightarrow>
     products s' = products s \<and> sales s' = sales s \<and> sale_items s' = sale_items s \<and>
     inventory_transactions s' = inventory_transactions s \<and> auth s' = auth s \<and>
     next_id s' = next_id s \<and> faults s' = tl (faults s)"
  by (auto simp: remote_def split: list.splits)

lemma truncRat_of_int: "truncRat (of_int n) = n"
  by (simp add: truncRat_def)

lemma parseFloatStr_1999: "parseFloatStr ''19.99'' = Some (1999 / 100)"
  by code_simp

lemma parseIntStr_10: "parseIntStr ''10'' = Some 10"
  by code_simp

lemma parseIntStr_empty: "parseIntStr [] = None"
  by code_simp

lemma single_two:
  assumes "a \<in> set rows" "b \<in> set rows" "a \<noteq> b"
  shows "\<exists>e. single rows = Failure e"
proof (cases rows)
  case Nil
  with assms show ?thesis by simp
next
  case (Cons r rest)
  show ?thesis
  proof (cases rest)
    case Nil
    with Cons assms show ?thesis by auto
  next
    case (Cons r' rest')
    with \<open>rows = r # rest\<close> show ?thesis by (simp add: single_def)
  qed
qed

section \<open>Lookup by barcode\<close>

lemma barcodeStore_eval: "barcodeStore =
  \<lparr>products =
     [\<lparr>p_id = 1, p_name = ''Old Shirt'', p_category = ''Shirts'',
         p_price = Some (1999 / 100), p_cost_price = None,
         p_stock_quantity = Some 0, p_size = ''M'', p_barcode = ''LIM013'',
         p_is_on_sale = False, p_sale_price = None, p_is_active = False\<rparr>,
      \<lparr>p_id = 2, p_name = ''Blue Cotton Shirt'', p_category = ''Shirts'',
         p_price = Some (1999 / 100), p_cost_price = None,
         p_stock_quantity = Some 10, p_size = ''M'', p_barcode = ''LIM013'',
         p_is_on_sale = False, p_sale_price = None, p_is_active = True\<rparr>],
     sales = [], sale_items = [],
     inventory_transactions =
       [\<lparr>t_product_id = 2, t_type = ''restock'', t_quantity = Some 10,
           t_user_id = ''cashier-1'', t_notes = ''Initial stock''\<rparr>],
     auth = Session ''cashier-1'', next_id = 3, faults = []\<rparr>"
  by (simp add: barcodeStore_def createProduct_def insertProduct_def deleteProduct_def
      updateRows_def remote_def emptyStore_def shirtData_def newProductRow_def
      parseFloatStr_1999 parseIntStr_10 parseIntStr_empty createInventoryTransaction_def
      noUpdates_def applyUpdate_def setCol_def firstRow_def intVal_def Let_def truncRat_def)

text \<open>
  C10. \<open>getProductByBarcode\<close> does not restrict its lookup to active products. When the
  request reaches the store and the barcode is carried by a soft-deleted product \<open>a\<close> and
  by an active product \<open>b\<close>, the only active one with that barcode, the single-row query
  sees more than one row and the operation returns a failure instead of \<open>b\<close>.
  \<open>checkBarcodeExists\<close> looks at active products only: it reports the barcode as taken
  because of \<open>b\<close>, and as free once \<open>b\<close> itself is excluded, the soft-deleted \<open>a\<close>
  notwithstanding.
\<close>

theorem getProductByBarcode_two_rows:
  assumes ok: "fst (remote s) = None"
    and a: "a \<in> set (products s)" "p_barcode a = barcode" "\<not> p_is_active a"
    and b: "b \<in> set (products s)" "p_barcode b = barcode" "p_is_active b"
    and uniq: "\<forall>p \<in> set (products s). p_barcode p = barcode \<and> p_is_active p \<longrightarrow> p_id p = p_id b"
  shows "(\<exists>e s'. getProductByBarcode barcode s = (Failure e, s')) \<and>
         (\<exists>s'. checkBarcodeExists barcode None s = (Success True, s')) \<and>
         (\<exists>s'. checkBarcodeExists barcode (Some (p_id b)) s = (Success False, s'))"
proof -
  obtain s1 where r: "remote s = (None, s1)" using ok by (cases "remote s") auto
  then have ps: "products s1 = products s" by (simp add: remote_cases)
  let ?rows = "filter (\<lambda>p. p_barcode p = barcode) (products s)"
  have ab: "a \<noteq> b" using a(3) b(3) by blast
  have "a \<in> set ?rows" "b \<in> set ?rows" using a(1,2) b(1,2) by simp_all
  from single_two [OF this ab] obtain e where "single ?rows = Failure e" ..
  then have 1: "getProductByBarcode barcode s = (Failure e, s1)"
    by (simp add: getProductByBarcode_def r ps)
  have "b \<in> set (filter (\<lambda>p. p_is_active p) ?rows)" using b by simp
  then have "filter (\<lambda>p. p_is_active p) ?rows \<noteq> []" by (metis empty_iff empty_set)
  then have 2: "checkBarcodeExists barcode None s = (Success True, s1)"
    by (simp add: checkBarcodeExists_def r)
  have "\<And>p. p \<in> set (filter (\<lambda>p. p_is_active p) ?rows) \<Longrightarrow> \<not> p_id p \<noteq> p_id b"
    using uniq by simp
  then have "filter (\<lambda>p. p_id p \<noteq> p_id b) (filter (\<lambda>p. p_is_active p) ?rows) = []"
    unfolding filter_empty_conv by blast
  then have 3: "checkBarcodeExists barcode (Some (p_id b)) s = (Success False, s1)"
    by (simp add: checkBarcodeExists_def r)
  from 1 2 3 show ?thesis by blast
qed

text \<open>The store reached by creating a product, deleting it and creating a second product
  with the same barcode is such a state.\<close>

theorem getProductByBarcode_two_rows_witness:
  "(\<exists>e s'. getProductByBarcode ''LIM013'' barcodeStore = (Failure e, s')) \<and>
   (\<exists>s'. checkBarcodeExists ''LIM013'' None barcodeStore = (Success True, s')) \<and>
   (\<exists>s'. checkBarcodeExists ''LIM013'' (Some 2) barcodeStore = (Success False, s'))"
  using getProductByBarcode_two_rows [of barcodeStore "products barcodeStore ! 0" "''LIM013''"
      "products barcodeStore ! 1"]
  by (simp add: barcodeStore_eval remote_def)

section \<open>Restocking\<close>

text \<open>
  C9. Whenever \<open>restockProduct\<close> finds the product, it returns success with
  \<open>newStock = currentStock + quantity\<close>, whatever the stock update and the ledger append
  return: \<open>updateProduct\<close> and \<open>createInventoryTransaction\<close> hand back their failures as
  results, which \<open>restockProduct\<close> does not look at.
\<close>

theorem restockProduct_ignores_failures:
  assumes "getProductById productId s = (Success product, s1)"
  shows "\<exists>r2 s2 r3 s3.
           updateProduct productId
             (noUpdates\<lparr>u_stock_quantity :=
                Num (of_int (toNumber (p_stock_quantity product) + quantity))\<rparr>) s1 = (r2, s2) \<and>
           createInventoryTransaction
             \<lparr> td_product_id = productId, td_type = ''restock'',
               td_quantity = Num (of_int quantity),
               td_notes = (if notes \<noteq> [] then notes
                           else ''Restocked '' @ showInt quantity @ '' units'') \<rparr> s2 = (r3, s3) \<and>
           restockProduct productId quantity notes s =
             (Success (toNumber (p_stock_quantity product) + quantity), s3)"
proof -
  let ?u = "noUpdates\<lparr>u_stock_quantity :=
                Num (of_int (toNumber (p_stock_quantity product) + quantity))\<rparr>"
  obtain r2 s2 where u: "updateProduct productId ?u s1 = (r2, s2)"
    by (cases "updateProduct productId ?u s1")
  let ?td = "\<lparr> td_product_id = productId, td_type = ''restock'',
               td_quantity = Num (of_int quantity),
               td_notes = (if notes \<noteq> [] then notes
                           else ''Restocked '' @ showInt quantity @ '' units'') \<rparr>"
  obtain r3 s3 where t: "createInventoryTransaction ?td s2 = (r3, s3)"
    by (cases "createInventoryTransaction ?td s2")
  have "restockProduct productId quantity notes s =
          (Success (toNumber (p_stock_quantity product) + quantity), s3)"
    using assms u t by (simp add: restockProduct_def truncRat_of_int Let_def)
  with u t show ?thesis by blast
qed

text \<open>With both writes failing, success and stock 10 are reported while the store still
  holds stock 5 and an empty ledger.\<close>

theorem restockProduct_ignores_failures_witness:
  "updateProduct 2 (noUpdates\<lparr>u_stock_quantity := Num 10\<rparr>)
       (summaryStore\<lparr>faults := [Some ''connection lost'', Some ''connection lost'']\<rparr>) =
     (Failure ''connection lost'', summaryStore\<lparr>faults := [Some ''connection lost'']\<rparr>) \<and>
   createInventoryTransaction
       \<lparr> td_product_id = 2, td_type = ''restock'', td_quantity = Num 5,
         td_notes = ''Restocked 5 units'' \<rparr>
       (summaryStore\<lparr>faults := [Some ''connection lost'']\<rparr>) =
     (Failure ''connection lost'', summaryStore) \<and>
   restockProduct 2 5 [] restockStore = (Success 10, summaryStore)"
  using restockProduct_ignores_failures [of 2 restockStore "stockedProduct 2 ''Cap'' 5"
      "summaryStore\<lparr>faults := [Some ''connection lost'', Some ''connection lost'']\<rparr>" 5 "[]"]
  by (simp add: restockStore_def summaryStore_def emptyStore_def getProductById_def remote_def
      single_def stockedProduct_def toNumber_def updateProduct_def updateRows_def
      createInventoryTransaction_def showInt_def showNat.simps)

section \<open>Creating a product\<close>

lemma createInventoryTransaction_cases:
  "createInventoryTransaction td s = (r, s') \<Longrightarrow>
     products s' = products s \<and> sales s' = sales s \<and> sale_items s' = sale_items s \<and>
     auth s' = auth s \<and> next_id s' = next_id s \<and>
     inventory_transactions s' =
       (case (auth s, fst (remote s)) of
          (Session user, None) \<Rightarrow>
             inventory_transactions s @
               [\<lparr> t_product_id = td_product_id td, t_type = td_type td,
                  t_quantity = parseInt (td_quantity td), t_user_id = user,
                  t_notes = td_notes td \<rparr>]
        | _ \<Rightarrow> inventory_transactions s)"
  by (auto simp: createInventoryTransaction_def remote_def Let_def
           split: auth_state.splits list.splits option.splits)

text \<open>
  C7. When the store accepts the new product, \<open>createProduct\<close> reports success with the
  created row, and the row is in the products table, whatever becomes of the ledger.
  With an initial stock \<open>n > 0\<close> one ledger entry of type "restock", quantity \<open>+n\<close> and
  note "Initial stock" is appended for it in a second request, provided a session is
  active and the store accepts that request; when the append fails, the ledger is left
  as it was and the product stays. With an initial stock that is 0, absent or not a
  number, the ledger is left as it was.
\<close>

theorem createProduct_initial_stock:
  assumes ins: "remote s = (None, s1)"
  shows "\<exists>s'. createProduct pd s = (Success (newProductRow pd (next_id s)), s') \<and>
           products s' = products s @ [newProductRow pd (next_id s)] \<and>
           inventory_transactions s' =
             (case parseInt (pd_stock_quantity pd) of
                None \<Rightarrow> inventory_transactions s
              | Some n \<Rightarrow>
                  if 0 < n then
                    (case (auth s, fst (remote s1)) of
                       (Session user, None) \<Rightarrow>
                          inventory_transactions s @
                            [\<lparr> t_product_id = next_id s, t_type = ''restock'',
                               t_quantity = Some n, t_user_id = user,
                               t_notes = ''Initial stock'' \<rparr>]
                     | _ \<Rightarrow> inventory_transactions s)
                  else inventory_transactions s)"
proof -
  let ?row = "newProductRow pd (next_id s)"
  let ?s1 = "s1\<lparr>products := products s1 @ [?row], next_id := Suc (next_id s1)\<rparr>"
  have same: "products s1 = products s" "next_id s1 = next_id s" "auth s1 = auth s"
    "inventory_transactions s1 = inventory_transactions s"
    using remote_cases [OF ins] by simp_all
  have i: "insertProduct pd s = (Success ?row, ?s1)"
    by (simp add: insertProduct_def ins same Let_def)
  have rem: "\<And>ps k. fst (remote (s1\<lparr>products := ps, next_id := k\<rparr>)) = fst (remote s1)"
    by (simp add: remote_def split: list.splits)
  show ?thesis
  proof (cases "parseInt (pd_stock_quantity pd)")
    case None
    then show ?thesis by (simp add: createProduct_def i same)
  next
    case (Some n)
    show ?thesis
    proof (cases "0 < n")
      case False
      with Some show ?thesis by (simp add: createProduct_def i same)
    next
      case True
      let ?td = "\<lparr> td_product_id = p_id ?row, td_type = ''restock'',
                    td_quantity = intVal (parseInt (pd_stock_quantity pd)),
                    td_notes = ''Initial stock'' \<rparr>"
      obtain r s2 where t: "createInventoryTransaction ?td ?s1 = (r, s2)"
        by (cases "createInventoryTransaction ?td ?s1")
      have c: "createProduct pd s = (Success ?row, s2)"
        using Some True t by (simp add: createProduct_def i)
      have q: "parseInt (intVal (Some n)) = Some n"
        by (simp add: intVal_def truncRat_of_int)
      have id: "p_id ?row = next_id s" by (simp add: newProductRow_def)
      note ct = createInventoryTransaction_cases [OF t]
      have "products s2 = products s @ [?row]"
        and "inventory_transactions s2 =
              (case (auth s, fst (remote s1)) of
                 (Session user, None) \<Rightarrow>
                    inventory_transactions s @
                      [\<lparr> t_product_id = next_id s, t_type = ''restock'',
                         t_quantity = Some n, t_user_id = user,
                         t_notes = ''Initial stock'' \<rparr>]
               | _ \<Rightarrow> inventory_transactions s)"
        using ct by (simp_all add: same rem Some q id split: auth_state.splits option.splits)
      with c Some True show ?thesis by simp
    qed
  qed
qed

text \<open>A product with initial stock 10: first with the ledger request failing, then with
  both requests accepted.\<close>

theorem createProduct_initial_stock_witness:
  "(\<exists>s'. createProduct (shirtData ''Blue Cotton Shirt'' (Str ''10''))
             (emptyStore\<lparr>faults := [None, Some ''connection lost'']\<rparr>) =
           (Success (newProductRow (shirtData ''Blue Cotton Shirt'' (Str ''10'')) 1), s') \<and>
         products s' = [newProductRow (shirtData ''Blue Cotton Shirt'' (Str ''10'')) 1] \<and>
         inventory_transactions s' = []) \<and>
   (\<exists>s'. createProduct (shirtData ''Blue Cotton Shirt'' (Str ''10'')) emptyStore =
           (Success (newProductRow (shirtData ''Blue Cotton Shirt'' (Str ''10'')) 1), s') \<and>
         products s' = [newProductRow (shirtData ''Blue Cotton Shirt'' (Str ''10'')) 1] \<and>
         inventory_transactions s' =
           [\<lparr> t_product_id = 1, t_type = ''restock'', t_quantity = Some 10,
              t_user_id = ''cashier-1'', t_notes = ''Initial stock'' \<rparr>])"
  using createProduct_initial_stock [of "emptyStore\<lparr>faults := [None, Some ''connection lost'']\<rparr>"
      "emptyStore\<lparr>faults := [Some ''connection lost'']\<rparr>"
      "shirtData ''Blue Cotton Shirt'' (Str ''10'')"]
    createProduct_initial_stock [of emptyStore emptyStore
      "shirtData ''Blue Cotton Shirt'' (Str ''10'')"]
  by (simp add: remote_def emptyStore_def shirtData_def parseIntStr_10)

section \<open>Creating a sale\<close>

lemma insertSaleItems_cases:
  "insertSaleItems rows s = (f, s') \<Longrightarrow>
     f = fst (remote s) \<and> products s' = products s \<and> sales s' = sales s \<and>
     inventory_transactions s' = inventory_transactions s \<and> auth s' = auth s \<and>
     next_id s' = next_id s \<and> faults s' = tl (faults s) \<and>
     sale_items s' = (if f = None then sale_items s @ rows else sale_items s)"
  by (auto simp: insertSaleItems_def remote_def split: list.splits option.splits)

text \<open>
  C4 (as the code has it). \<open>createSale\<close> has no check of the cart. With an empty cart, an
  active session and a store that accepts the sale row, the sale row is written with the
  total it was given; no sale line, no stock update and no ledger entry is written. The
  result is a success, unless the store refuses the empty batch of lines: then it is a
  failure with the store's message, and the sale row stays.
\<close>

theorem createSale_empty_cart:
  assumes session: "auth s = Session user" and ins: "remote s = (None, s1)"
  shows "\<exists>res s'.
           createSale \<lparr> sd_items = [], sd_total = amount, sd_payment_method = method \<rparr> s = (res, s') \<and>
           sales s' = sales s @ [\<lparr> s_id = next_id s, s_cashier_id = user, s_total = Some amount,
                                    s_payment_method = method \<rparr>] \<and>
           sale_items s' = sale_items s \<and>
           products s' = products s \<and>
           inventory_transactions s' = inventory_transactions s \<and>
           res = (case fst (remote s1) of
                    Some e \<Rightarrow> Failure e
                  | None \<Rightarrow>
                      Success \<lparr> r_sale = \<lparr> s_id = next_id s, s_cashier_id = user,
                                            s_total = Some amount, s_payment_method = method \<rparr>,
                                r_items = [], r_saleId = next_id s \<rparr>)"
proof -
  let ?row = "\<lparr> s_id = next_id s, s_cashier_id = user, s_total = Some amount,
                s_payment_method = method \<rparr>"
  let ?s1 = "s1\<lparr>sales := sales s1 @ [?row], next_id := Suc (next_id s1)\<rparr>"
  have same: "products s1 = products s" "next_id s1 = next_id s" "sales s1 = sales s"
    "inventory_transactions s1 = inventory_transactions s" "sale_items s1 = sale_items s"
    using remote_cases [OF ins] by simp_all
  have i: "insertSale user (Some amount) method s = (Success ?row, ?s1)"
    by (simp add: insertSale_def ins same Let_def)
  obtain f s2 where it: "insertSaleItems [] ?s1 = (f, s2)" by (cases "insertSaleItems [] ?s1")
  note fr = insertSaleItems_cases [OF it]
  have f: "f = fst (remote s1)"
    using fr by (simp add: remote_def split: list.splits)
  have c: "createSale \<lparr> sd_items = [], sd_total = amount, sd_payment_method = method \<rparr> s =
             ((case f of Some e \<Rightarrow> Failure e
               | None \<Rightarrow> Success \<lparr> r_sale = ?row, r_items = [], r_saleId = next_id s \<rparr>), s2)"
    by (simp add: createSale_def session i it Let_def split: option.splits)
  have "sales s2 = sales s @ [?row]" "sale_items s2 = sale_items s" "products s2 = products s"
    "inventory_transactions s2 = inventory_transactions s"
    using fr by (simp_all add: same)
  with c f show ?thesis by simp
qed

text \<open>An empty cart on the empty store, the batch of lines being refused.\<close>

theorem createSale_empty_cart_witness:
  "\<exists>res s'.
     createSale \<lparr> sd_items = [], sd_total = 0, sd_payment_method = ''Cash'' \<rparr>
        (emptyStore\<lparr>faults := [None, Some ''connection lost'']\<rparr>) = (res, s') \<and>
     sales s' = [\<lparr> s_id = 1, s_cashier_id = ''cashier-1'', s_total = Some 0,
                   s_payment_method = ''Cash'' \<rparr>] \<and>
     sale_items s' = [] \<and> products s' = [] \<and> inventory_transactions s' = [] \<and>
     res = Failure ''connection lost''"
  using createSale_empty_cart [of "emptyStore\<lparr>faults := [None, Some ''connection lost'']\<rparr>"
      "''cashier-1''" "emptyStore\<lparr>faults := [Some ''connection lost'']\<rparr>" 0 "''Cash''"]
  by (simp add: emptyStore_def remote_def)

text \<open>C4 as claimed, an empty cart being rejected with nothing written, fails: on the empty
  store the call succeeds and leaves a sale row.\<close>

theorem createSale_empty_cart_counterexample:
  "createSale \<lparr> sd_items = [], sd_total = 0, sd_payment_method = ''Cash'' \<rparr> emptyStore =
     (Success \<lparr> r_sale = \<lparr> s_id = 1, s_cashier_id = ''cashier-1'', s_total = Some 0,
                           s_payment_method = ''Cash'' \<rparr>,
                r_items = [], r_saleId = 1 \<rparr>,
      emptyStore\<lparr> sales := [\<lparr> s_id = 1, s_cashier_id = ''cashier-1'', s_total = Some 0,
                                s_payment_method = ''Cash'' \<rparr>],
                   next_id := 2 \<rparr>)"
  by (simp add: createSale_def emptyStore_def insertSale_def insertSaleItems_def remote_def Let_def)

lemma getProductById_cases:
  "getProductById i s = (r, s') \<Longrightarrow> \<exists>f. remote s = (f, s')"
  by (auto simp: getProductById_def split: prod.splits option.splits)

lemma updateRows_frame:
  "updateRows i u s = (r, s') \<Longrightarrow>
     sales s' = sales s \<and> sale_items s' = sale_items s \<and>
     inventory_transactions s' = inventory_transactions s \<and> auth s' = auth s \<and>
     next_id s' = next_id s \<and> faults s' = tl (faults s)"
  by (auto simp: updateRows_def remote_def split: list.splits option.splits if_splits)

lemma updateProduct_frame:
  "updateProduct i u s = (r, s') \<Longrightarrow>
     sales s' = sales s \<and> sale_items s' = sale_items s \<and>
     inventory_transactions s' = inventory_transactions s \<and> auth s' = auth s \<and>
     next_id s' = next_id s \<and> faults s' = tl (faults s)"
  unfolding updateProduct_def
  by (cases "updateRows i (coerceUpdates u) s"; cases "fst (updateRows i (coerceUpdates u) s)")
     (use updateRows_frame in \<open>fastforce\<close>)+

lemma stockLoop_frame:
  "sales (stockLoop k cart s) = sales s \<and> sale_items (stockLoop k cart s) = sale_items s \<and>
   auth (stockLoop k cart s) = auth s \<and> next_id (stockLoop k cart s) = next_id s"
proof (induction cart arbitrary: s)
  case Nil
  show ?case by simp
next
  case (Cons item rest)
  obtain r1 s1 where g: "getProductById (i_id item) s = (r1, s1)"
    by (cases "getProductById (i_id item) s")
  from getProductById_cases [OF g] obtain f where "remote s = (f, s1)" ..
  note f1 = remote_cases [OF this]
  show ?case
  proof (cases r1)
    case (Failure e)
    with g f1 Cons.IH [of s1] show ?thesis by simp
  next
    case (Success product)
    let ?u = "noUpdates\<lparr>u_stock_quantity :=
                Num (of_int (toNumber (p_stock_quantity product) - i_quantity item))\<rparr>"
    obtain r2 s2 where u: "updateProduct (i_id item) ?u s1 = (r2, s2)"
      by (cases "updateProduct (i_id item) ?u s1")
    let ?td = "\<lparr> td_product_id = i_id item, td_type = ''sale'',
                  td_quantity = Num (of_int (- i_quantity item)),
                  td_notes = ''Sale '' @ showNat k \<rparr>"
    obtain r3 s3 where t: "createInventoryTransaction ?td s2 = (r3, s3)"
      by (cases "createInventoryTransaction ?td s2")
    have "stockLoop k (item # rest) s = stockLoop k rest s3"
      using g Success u t by (simp add: Let_def)
    with f1 updateProduct_frame [OF u] createInventoryTransaction_cases [OF t] Cons.IH [of s3]
    show ?thesis by simp
  qed
qed


lemma insertSale_cases:
  "insertSale user amount method s = (Success row, s1) \<Longrightarrow>
     row = \<lparr> s_id = next_id s, s_cashier_id = user, s_total = amount, s_payment_method = method \<rparr> \<and>
     (\<exists>s0. remote s = (None, s0) \<and>
           s1 = s0\<lparr>sales := sales s @ [row], next_id := Suc (next_id s)\<rparr>)"
  by (auto simp: insertSale_def remote_def Let_def split: list.splits option.splits)

lemma createSale_Success:
  assumes "createSale saleData s = (Success r, s')"
  shows "\<exists>user. auth s = Session user \<and>
           r = \<lparr> r_sale = \<lparr> s_id = next_id s, s_cashier_id = user,
                              s_total = Some (sd_total saleData),
                              s_payment_method = sd_payment_method saleData \<rparr>,
                   r_items = map (saleItemOf (next_id s)) (sd_items saleData),
                   r_saleId = next_id s \<rparr> \<and>
           sales s' = sales s @ [r_sale r] \<and>
           sale_items s' = sale_items s @ r_items r"
proof (cases "auth s")
  case (SessionError e)
  with assms show ?thesis by (simp add: createSale_def)
next
  case NoSession
  with assms show ?thesis by (simp add: createSale_def)
next
  case (Session user)
  obtain r1 s1 where i: "insertSale user (Some (sd_total saleData)) (sd_payment_method saleData) s = (r1, s1)"
    by (cases "insertSale user (Some (sd_total saleData)) (sd_payment_method saleData) s")
  show ?thesis
  proof (cases r1)
    case (Failure e)
    with assms Session i show ?thesis by (simp add: createSale_def)
  next
    case (Success row)
    from insertSale_cases [OF i [unfolded Success]] obtain s0
      where row: "row = \<lparr> s_id = next_id s, s_cashier_id = user, s_total = Some (sd_total saleData),
                           s_payment_method = sd_payment_method saleData \<rparr>"
        and r0: "remote s = (None, s0)"
        and s1: "s1 = s0\<lparr>sales := sales s @ [row], next_id := Suc (next_id s)\<rparr>"
      by blast
    note f0 = remote_cases [OF r0]
    let ?items = "map (saleItemOf (s_id row)) (sd_items saleData)"
    obtain f s2 where it: "insertSaleItems ?items s1 = (f, s2)"
      by (cases "insertSaleItems ?items s1")
    note fr = insertSaleItems_cases [OF it]
    show ?thesis
    proof (cases f)
      case (Some e)
      with assms Session i Success it show ?thesis by (simp add: createSale_def Let_def)
    next
      case None
      have r: "r = \<lparr> r_sale = row, r_items = ?items, r_saleId = s_id row \<rparr>"
        and s': "s' = stockLoop (s_id row) (sd_items saleData) s2"
        using assms Session i Success it None by (simp_all add: createSale_def Let_def)
      have "sales s2 = sales s @ [row]" "sale_items s2 = sale_items s @ ?items"
        using fr None f0 by (simp_all add: s1 row)
      then have "sales s' = sales s @ [row]" "sale_items s' = sale_items s @ ?items"
        using s' stockLoop_frame [of "s_id row" "sd_items saleData" s2] by simp_all
      with r row Session show ?thesis by simp
    qed
  qed
qed

lemma foldl_line_totals:
  "foldl nadd (Some a) (map (si_total \<circ> saleItemOf k) cart) =
     Some (foldl (\<lambda>sum item. sum + i_price item * of_int (i_quantity item)) a cart)"
  by (induction cart arbitrary: a) (simp_all add: saleItemOf_def nadd_def nmul_def truncRat_of_int)

lemma showNat_4: "showNat 4 = ''4''"
  by code_simp

lemma capSale_eval:
  "createSale \<lparr> sd_items = capCart, sd_total = amount, sd_payment_method = ''Cash'' \<rparr> summaryStore =
     (Success (capSaleResult amount), capSaleStore amount)"
  by (simp add: createSale_def insertSale_def insertSaleItems_def remote_def summaryStore_def
      emptyStore_def capCart_def capSaleResult_def capSaleStore_def saleItemOf_def nmul_def
      truncRat_of_int getProductById_def single_def stockedProduct_def toNumber_def
      updateProduct_def updateRows_def coerceUpdates_def noUpdates_def intVal_def
      applyUpdate_def setCol_def firstRow_def createInventoryTransaction_def showNat_4
      Let_def truncRat_def)

text \<open>
  C2 (as the code has it). For every successful \<open>createSale\<close> the total of each stored
  sale line is recomputed as unit price times quantity, and the lines are stored as
  returned. The total of the stored sale record is the total the caller passed in the
  sale data: \<open>createSale\<close> does not recompute it. It equals the sum of the line totals
  when the caller is \<open>processPayment\<close>, which passes the sum of price times quantity over
  the cart.
\<close>

theorem createSale_totals:
  "(createSale saleData s = (Success r, s') \<longrightarrow>
      s_total (r_sale r) = Some (sd_total saleData) \<and>
      sales s' = sales s @ [r_sale r] \<and>
      sale_items s' = sale_items s @ r_items r \<and>
      map si_total (r_items r) =
        map (\<lambda>item. Some (i_price item * of_int (i_quantity item))) (sd_items saleData) \<and>
      (\<forall>line \<in> set (r_items r).
         si_total line = nmul (si_unit_price line) (map_option of_int (si_quantity line)))) \<and>
   (processPayment cart method s = (Success r, s') \<longrightarrow>
      sales s' = sales s @ [r_sale r] \<and>
      sale_items s' = sale_items s @ r_items r \<and>
      s_total (r_sale r) = foldl nadd (Some 0) (map si_total (r_items r)))"
proof (intro conjI impI)
  assume a: "createSale saleData s = (Success r, s')"
  from createSale_Success [OF a] obtain user where
    r: "r = \<lparr> r_sale = \<lparr> s_id = next_id s, s_cashier_id = user,
                              s_total = Some (sd_total saleData),
                              s_payment_method = sd_payment_method saleData \<rparr>,
                   r_items = map (saleItemOf (next_id s)) (sd_items saleData),
                   r_saleId = next_id s \<rparr>"
    and st: "sales s' = sales s @ [r_sale r]" "sale_items s' = sale_items s @ r_items r"
    by blast
  show "s_total (r_sale r) = Some (sd_total saleData)" using r by simp
  show "sales s' = sales s @ [r_sale r]" by (rule st)
  show "sale_items s' = sale_items s @ r_items r" by (rule st)
  show "map si_total (r_items r) =
        map (\<lambda>item. Some (i_price item * of_int (i_quantity item))) (sd_items saleData)"
    using r by (simp add: saleItemOf_def nmul_def truncRat_of_int)
  show "\<forall>line \<in> set (r_items r).
         si_total line = nmul (si_unit_price line) (map_option of_int (si_quantity line))"
    using r by (auto simp: saleItemOf_def)
next
  assume a: "processPayment cart method s = (Success r, s')"
  then have c: "createSale \<lparr> sd_items = cart, sd_total = cartTotal cart,
                              sd_payment_method = method \<rparr> s = (Success r, s')"
    by (simp add: processPayment_def)
  from createSale_Success [OF c] obtain user where
    r: "r = \<lparr> r_sale = \<lparr> s_id = next_id s, s_cashier_id = user,
                              s_total = Some (cartTotal cart),
                              s_payment_method = method \<rparr>,
                   r_items = map (saleItemOf (next_id s)) cart,
                   r_saleId = next_id s \<rparr>"
    and st: "sales s' = sales s @ [r_sale r]" "sale_items s' = sale_items s @ r_items r"
    by auto
  show "sales s' = sales s @ [r_sale r]" by (rule st)
  show "sale_items s' = sale_items s @ r_items r" by (rule st)
  show "s_total (r_sale r) = foldl nadd (Some 0) (map si_total (r_items r))"
    using r by (simp add: foldl_line_totals cartTotal_def)
qed

text \<open>A sale of two caps at 10 through \<open>processPayment\<close>.\<close>

theorem createSale_totals_witness:
  "createSale capSaleData summaryStore = (Success (capSaleResult 20), capSaleStore 20) \<and>
   processPayment capCart ''Cash'' summaryStore = (Success (capSaleResult 20), capSaleStore 20) \<and>
   s_total (r_sale (capSaleResult 20)) = Some (sd_total capSaleData) \<and>
   sales (capSaleStore 20) = sales summaryStore @ [r_sale (capSaleResult 20)] \<and>
   sale_items (capSaleStore 20) = sale_items summaryStore @ r_items (capSaleResult 20) \<and>
   map si_total (r_items (capSaleResult 20)) =
     map (\<lambda>item. Some (i_price item * of_int (i_quantity item))) (sd_items capSaleData) \<and>
   s_total (r_sale (capSaleResult 20)) =
     foldl nadd (Some 0) (map si_total (r_items (capSaleResult 20)))"
proof -
  have t: "cartTotal capCart = 20" by (simp add: cartTotal_def capCart_def)
  have c: "createSale capSaleData summaryStore = (Success (capSaleResult 20), capSaleStore 20)"
    by (simp add: capSaleData_def t capSale_eval)
  have p: "processPayment capCart ''Cash'' summaryStore =
             (Success (capSaleResult 20), capSaleStore 20)"
    using c by (simp add: processPayment_def capSaleData_def)
  note th = createSale_totals [of capSaleData summaryStore "capSaleResult 20" "capSaleStore 20"
      capCart "''Cash''"]
  note A = mp [OF conjunct1 [OF th] c]
  note B = mp [OF conjunct2 [OF th] p]
  from A B c p show ?thesis by blast
qed

text \<open>C2 as claimed fails for a caller that passes another total: the sale record keeps
  999 while its only line totals 20.\<close>

theorem createSale_totals_counterexample:
  "createSale \<lparr> sd_items = capCart, sd_total = 999, sd_payment_method = ''Cash'' \<rparr> summaryStore =
     (Success (capSaleResult 999), capSaleStore 999) \<and>
   s_total (r_sale (capSaleResult 999)) = Some 999 \<and>
   map si_total (r_items (capSaleResult 999)) = [Some 20] \<and>
   foldl nadd (Some 0) (map si_total (r_items (capSaleResult 999))) = Some 20"
  by (simp add: capSale_eval) (simp add: capSaleResult_def nadd_def)

section \<open>Stock and ledger after a sale\<close>

lemma remote_no_fault: "faults s = [] \<Longrightarrow> remote s = (None, s)"
  by (simp add: remote_def)

lemma stock_update_row:
  "applyUpdate (coerceUpdates (noUpdates\<lparr>u_stock_quantity := Num (of_int n)\<rparr>)) p =
     p\<lparr>p_stock_quantity := Some n\<rparr>"
  by (simp add: applyUpdate_def coerceUpdates_def noUpdates_def intVal_def truncRat_of_int
      setCol_def Let_def)

lemma updateProduct_stock_no_fault:
  assumes "faults s = []"
  shows "snd (updateProduct i (noUpdates\<lparr>u_stock_quantity := Num (of_int n)\<rparr>) s) =
           s\<lparr>products := map (\<lambda>p. if p_id p = i then p\<lparr>p_stock_quantity := Some n\<rparr> else p)
                               (products s)\<rparr>"
proof -
  have c: "castInteger (u_stock_quantity (coerceUpdates (noUpdates\<lparr>u_stock_quantity := Num (of_int n)\<rparr>)))"
    "castNumeric (u_price (coerceUpdates (noUpdates\<lparr>u_stock_quantity := Num (of_int n)\<rparr>)))"
    "castNumeric (u_cost_price (coerceUpdates (noUpdates\<lparr>u_stock_quantity := Num (of_int n)\<rparr>)))"
    "castNumeric (u_sale_price (coerceUpdates (noUpdates\<lparr>u_stock_quantity := Num (of_int n)\<rparr>)))"
    by (simp_all add: coerceUpdates_def noUpdates_def intVal_def truncRat_of_int Let_def)
  show ?thesis
    by (simp add: updateProduct_def updateRows_def remote_no_fault [OF assms] c stock_update_row)
qed

lemma createInventoryTransaction_no_fault:
  assumes "faults s = []" "auth s = Session user"
  shows "snd (createInventoryTransaction td s) =
           s\<lparr>inventory_transactions := inventory_transactions s @
               [\<lparr> t_product_id = td_product_id td, t_type = td_type td,
                  t_quantity = parseInt (td_quantity td), t_user_id = user,
                  t_notes = td_notes td \<rparr>]\<rparr>"
  by (simp add: createInventoryTransaction_def assms remote_no_fault Let_def)

lemma stockLoop_Cons_no_fault:
  assumes "faults s = []" "auth s = Session user"
  shows "stockLoop k (item # rest) s = stockLoop k rest (stockStep k user item s)"
proof -
  have g: "getProductById (i_id item) s =
             (single (filter (\<lambda>p. p_id p = i_id item) (products s)), s)"
    by (simp add: getProductById_def remote_no_fault assms)
  show ?thesis
  proof (cases "single (filter (\<lambda>p. p_id p = i_id item) (products s))")
    case (Failure e)
    then show ?thesis using g by (simp add: stockStep_def)
  next
    case (Success product)
    define n where "n = toNumber (p_stock_quantity product) - i_quantity item"
    define q where "q = - i_quantity item"
    let ?s2 = "snd (updateProduct (i_id item) (noUpdates\<lparr>u_stock_quantity := Num (of_int n)\<rparr>) s)"
    have s2: "?s2 = s\<lparr>products := map (\<lambda>p. if p_id p = i_id item
                                then p\<lparr>p_stock_quantity := Some n\<rparr> else p) (products s)\<rparr>"
      by (rule updateProduct_stock_no_fault [OF assms(1)])
    have f2: "faults ?s2 = []" "auth ?s2 = Session user" using assms by (simp_all add: s2)
    let ?td = "\<lparr> td_product_id = i_id item, td_type = ''sale'',
                  td_quantity = Num (of_int q), td_notes = ''Sale '' @ showNat k \<rparr>"
    have s3: "snd (createInventoryTransaction ?td ?s2) =
                ?s2\<lparr>inventory_transactions := inventory_transactions ?s2 @
                   [\<lparr> t_product_id = i_id item, t_type = ''sale'',
                      t_quantity = Some q, t_user_id = user,
                      t_notes = ''Sale '' @ showNat k \<rparr>]\<rparr>"
      using createInventoryTransaction_no_fault [OF f2, of ?td]
      by (simp add: truncRat_of_int)
    have "stockLoop k (item # rest) s = stockLoop k rest (snd (createInventoryTransaction ?td ?s2))"
      using g Success unfolding n_def q_def by (simp add: Let_def split: prod.splits)
    also have "snd (createInventoryTransaction ?td ?s2) = stockStep k user item s"
      unfolding s3 unfolding s2 by (simp add: stockStep_def Success n_def q_def)
    finally show ?thesis .
  qed
qed

lemma filter_id_map_other:
  "pid \<noteq> i \<Longrightarrow>
     filter (\<lambda>p. p_id p = pid) (map (\<lambda>p. if p_id p = i then p\<lparr>p_stock_quantity := v\<rparr> else p) ps) =
     filter (\<lambda>p. p_id p = pid) ps"
  by (induction ps) auto

lemma filter_id_map_same:
  "filter (\<lambda>p. p_id p = i) (map (\<lambda>p. if p_id p = i then p\<lparr>p_stock_quantity := v\<rparr> else p) ps) =
     map (\<lambda>p. p\<lparr>p_stock_quantity := v\<rparr>) (filter (\<lambda>p. p_id p = i) ps)"
  by (induction ps) auto

lemma stockStep_session:
  "faults (stockStep k user item s) = faults s \<and> auth (stockStep k user item s) = auth s"
  by (simp add: stockStep_def split: result.splits)

lemma stockStep_other:
  "pid \<noteq> i_id item \<Longrightarrow>
     filter (\<lambda>p. p_id p = pid) (products (stockStep k user item s)) =
       filter (\<lambda>p. p_id p = pid) (products s) \<and>
     filter (\<lambda>t. t_product_id t = pid) (inventory_transactions (stockStep k user item s)) =
       filter (\<lambda>t. t_product_id t = pid) (inventory_transactions s)"
  by (simp add: stockStep_def filter_id_map_other split: result.splits)

lemma stockStep_same:
  "filter (\<lambda>p. p_id p = i_id item) (products s) = [p] \<Longrightarrow>
     filter (\<lambda>p. p_id p = i_id item) (products (stockStep k user item s)) =
       [p\<lparr>p_stock_quantity := Some (toNumber (p_stock_quantity p) - i_quantity item)\<rparr>] \<and>
     filter (\<lambda>t. t_product_id t = i_id item) (inventory_transactions (stockStep k user item s)) =
       filter (\<lambda>t. t_product_id t = i_id item) (inventory_transactions s) @
         [\<lparr> t_product_id = i_id item, t_type = ''sale'',
            t_quantity = Some (- i_quantity item), t_user_id = user,
            t_notes = ''Sale '' @ showNat k \<rparr>]"
  by (simp add: stockStep_def single_def filter_id_map_same)

lemma stockLoop_other_products:
  assumes "faults s = []" "auth s = Session user" "pid \<notin> i_id ` set cart"
  shows "filter (\<lambda>p. p_id p = pid) (products (stockLoop k cart s)) =
           filter (\<lambda>p. p_id p = pid) (products s) \<and>
         filter (\<lambda>t. t_product_id t = pid) (inventory_transactions (stockLoop k cart s)) =
           filter (\<lambda>t. t_product_id t = pid) (inventory_transactions s)"
  using assms
proof (induction cart arbitrary: s)
  case Nil
  then show ?case by simp
next
  case (Cons item rest)
  let ?s1 = "stockStep k user item s"
  from Cons.prems have ne: "pid \<noteq> i_id item" and nr: "pid \<notin> i_id ` set rest" by auto
  have s1: "faults ?s1 = []" "auth ?s1 = Session user"
    using Cons.prems(1,2) by (simp_all add: stockStep_session)
  have "stockLoop k (item # rest) s = stockLoop k rest ?s1"
    by (rule stockLoop_Cons_no_fault [OF Cons.prems(1,2)])
  with Cons.IH [OF s1 nr] stockStep_other [OF ne, of k user s] show ?case by simp
qed

lemma stockLoop_sold_product:
  assumes "faults s = []" "auth s = Session user"
    and "filter (\<lambda>i. i_id i = i_id item) cart = [item]"
    and "filter (\<lambda>p. p_id p = i_id item) (products s) = [p]"
  shows "filter (\<lambda>p. p_id p = i_id item) (products (stockLoop k cart s)) =
           [p\<lparr>p_stock_quantity := Some (toNumber (p_stock_quantity p) - i_quantity item)\<rparr>] \<and>
         filter (\<lambda>t. t_product_id t = i_id item) (inventory_transactions (stockLoop k cart s)) =
           filter (\<lambda>t. t_product_id t = i_id item) (inventory_transactions s) @
             [\<lparr> t_product_id = i_id item, t_type = ''sale'',
                t_quantity = Some (- i_quantity item), t_user_id = user,
                t_notes = ''Sale '' @ showNat k \<rparr>]"
  using assms
proof (induction cart arbitrary: s)
  case Nil
  then show ?case by simp
next
  case (Cons head rest)
  let ?s1 = "stockStep k user head s"
  have s1: "faults ?s1 = []" "auth ?s1 = Session user"
    using Cons.prems(1,2) by (simp_all add: stockStep_session)
  have step: "stockLoop k (head # rest) s = stockLoop k rest ?s1"
    by (rule stockLoop_Cons_no_fault [OF Cons.prems(1,2)])
  show ?case
  proof (cases "i_id head = i_id item")
    case True
    with Cons.prems(3) have h: "head = item" and "filter (\<lambda>i. i_id i = i_id item) rest = []"
      by simp_all
    then have "i_id item \<notin> i_id ` set rest" by (auto simp: filter_empty_conv)
    from stockLoop_other_products [OF s1 this, of k]
      stockStep_same [of item s p k user] Cons.prems(4) h step
    show ?thesis by simp
  next
    case False
    then have ne: "i_id item \<noteq> i_id head" by simp
    from False Cons.prems(3) have r: "filter (\<lambda>i. i_id i = i_id item) rest = [item]" by simp
    have "filter (\<lambda>p. p_id p = i_id item) (products ?s1) = [p]"
      using stockStep_other [OF ne, of k user s] Cons.prems(4) by simp
    from Cons.IH [OF s1 r this] stockStep_other [OF ne, of k user s] step
    show ?thesis by simp
  qed
qed

lemma createSale_no_fault:
  assumes "auth s = Session user" "faults s = []"
  shows "createSale saleData s =
           (Success \<lparr> r_sale = \<lparr> s_id = next_id s, s_cashier_id = user,
                                 s_total = Some (sd_total saleData),
                                 s_payment_method = sd_payment_method saleData \<rparr>,
                      r_items = map (saleItemOf (next_id s)) (sd_items saleData),
                      r_saleId = next_id s \<rparr>,
            stockLoop (next_id s) (sd_items saleData)
              (s\<lparr> sales := sales s @ [\<lparr> s_id = next_id s, s_cashier_id = user,
                                          s_total = Some (sd_total saleData),
                                          s_payment_method = sd_payment_method saleData \<rparr>],
                  next_id := Suc (next_id s),
                  sale_items := sale_items s @ map (saleItemOf (next_id s)) (sd_items saleData) \<rparr>))"
  by (simp add: createSale_def assms insertSale_def insertSaleItems_def remote_def Let_def)

text \<open>
  C1 (as the code has it). For a \<open>createSale\<close> call with an active session in which every
  request to the store goes through: a product that has one row in the store, with stock
  \<open>oldStock\<close>, and one entry in the cart, with quantity \<open>q\<close>, has stock \<open>oldStock - q\<close>
  afterwards, and the ledger entries of that product are those from before followed by
  exactly one new entry, of type "sale", quantity \<open>-q\<close>, with the note naming the sale.
\<close>

theorem createSale_stock_and_ledger:
  assumes session: "auth s = Session user"
    and no_fault: "faults s = []"
    and item: "filter (\<lambda>i. i_id i = i_id item) (sd_items saleData) = [item]"
    and row: "filter (\<lambda>p. p_id p = i_id item) (products s) = [p]"
    and stock: "p_stock_quantity p = Some oldStock"
  shows "\<exists>r s'. createSale saleData s = (Success r, s') \<and>
           filter (\<lambda>p. p_id p = i_id item) (products s') =
             [p\<lparr>p_stock_quantity := Some (oldStock - i_quantity item)\<rparr>] \<and>
           filter (\<lambda>t. t_product_id t = i_id item) (inventory_transactions s') =
             filter (\<lambda>t. t_product_id t = i_id item) (inventory_transactions s) @
               [\<lparr> t_product_id = i_id item, t_type = ''sale'',
                  t_quantity = Some (- i_quantity item), t_user_id = user,
                  t_notes = ''Sale '' @ showNat (r_saleId r) \<rparr>]"
proof -
  let ?s2 = "s\<lparr> sales := sales s @ [\<lparr> s_id = next_id s, s_cashier_id = user,
                                          s_total = Some (sd_total saleData),
                                          s_payment_method = sd_payment_method saleData \<rparr>],
                  next_id := Suc (next_id s),
                  sale_items := sale_items s @ map (saleItemOf (next_id s)) (sd_items saleData) \<rparr>"
  have pre: "faults ?s2 = []" "auth ?s2 = Session user"
    "filter (\<lambda>p. p_id p = i_id item) (products ?s2) = [p]"
    using session no_fault row by simp_all
  from stockLoop_sold_product [OF pre(1,2) item pre(3), of "next_id s"]
    createSale_no_fault [OF session no_fault, of saleData]
  show ?thesis by (simp add: stock toNumber_def)
qed


text \<open>The sale of two caps from the summary store.\<close>

theorem createSale_stock_and_ledger_witness:
  "\<exists>r s'. createSale capSaleData summaryStore = (Success r, s') \<and>
           filter (\<lambda>p. p_id p = 2) (products s') = [stockedProduct 2 ''Cap'' 3] \<and>
           filter (\<lambda>t. t_product_id t = 2) (inventory_transactions s') =
             [\<lparr> t_product_id = 2, t_type = ''sale'', t_quantity = Some (- 2),
                t_user_id = ''cashier-1'', t_notes = ''Sale 4'' \<rparr>]"
proof -
  let ?item = "\<lparr> i_id = 2, i_name = ''Cap'', i_price = 10, i_quantity = 2 \<rparr>"
  have "auth summaryStore = Session ''cashier-1''" "faults summaryStore = []"
    "filter (\<lambda>i. i_id i = i_id ?item) (sd_items capSaleData) = [?item]"
    "filter (\<lambda>p. p_id p = i_id ?item) (products summaryStore) = [stockedProduct 2 ''Cap'' 5]"
    "p_stock_quantity (stockedProduct 2 ''Cap'' 5) = Some 5"
    by (simp_all add: summaryStore_def emptyStore_def capSaleData_def capCart_def
        stockedProduct_def)
  from createSale_stock_and_ledger [OF this] obtain r s' where
    c: "createSale capSaleData summaryStore = (Success r, s')"
    and p: "filter (\<lambda>p. p_id p = i_id ?item) (products s') =
              [(stockedProduct 2 ''Cap'' 5)\<lparr>p_stock_quantity := Some (5 - i_quantity ?item)\<rparr>]"
    and l: "filter (\<lambda>t. t_product_id t = i_id ?item) (inventory_transactions s') =
              filter (\<lambda>t. t_product_id t = i_id ?item) (inventory_transactions summaryStore) @
               [\<lparr> t_product_id = i_id ?item, t_type = ''sale'',
                  t_quantity = Some (- i_quantity ?item), t_user_id = ''cashier-1'',
                  t_notes = ''Sale '' @ showNat (r_saleId r) \<rparr>]"
    by blast
  have "createSale capSaleData summaryStore = (Success (capSaleResult 20), capSaleStore 20)"
    by (simp add: capSaleData_def cartTotal_def capCart_def capSale_eval [unfolded capCart_def])
  with c have "r = capSaleResult 20" by simp
  then have "r_saleId r = 4" by (simp add: capSaleResult_def)
  with c p l show ?thesis
    by (simp add: stockedProduct_def summaryStore_def emptyStore_def showNat_4)
qed

text \<open>C1 as claimed, for every call that reports success, fails: when the store refuses the
  stock update and the ledger append, \<open>createSale\<close> still reports success, the stock of
  the cap is 5 as before and the ledger is empty.\<close>

theorem createSale_stock_and_ledger_counterexample:
  "createSale capSaleData lossyStore =
     (Success (capSaleResult 20),
      (capSaleStore 20)\<lparr>products := products summaryStore, inventory_transactions := []\<rparr>) \<and>
   products summaryStore ! 1 = stockedProduct 2 ''Cap'' 5"
  by (simp add: createSale_def insertSale_def insertSaleItems_def remote_def summaryStore_def
      emptyStore_def capCart_def capSaleResult_def capSaleStore_def saleItemOf_def nmul_def
      truncRat_of_int getProductById_def single_def stockedProduct_def toNumber_def
      updateProduct_def updateRows_def coerceUpdates_def noUpdates_def intVal_def
      applyUpdate_def setCol_def firstRow_def createInventoryTransaction_def showNat_4
      Let_def truncRat_def lossyStore_def capSaleData_def cartTotal_def)

section \<open>Updating a product\<close>

lemma coerced_price:
  "setNumeric (if truthy v then numVal (parseFloat v) else v) old =
     (case v of Undefined \<Rightarrow> old | Num r \<Rightarrow> Some r | NaN \<Rightarrow> None
      | Str w \<Rightarrow> if w = [] then old else parseFloatStr w)"
  by (cases v) (auto simp: numVal_def split: option.splits)

lemma coerced_price_castable:
  "v \<noteq> Str [] \<Longrightarrow> castNumeric (if truthy v then numVal (parseFloat v) else v)"
  by (cases v) (auto simp: numVal_def split: option.splits)

lemma coerced_stock:
  "setInteger (if v \<noteq> Undefined then intVal (parseInt v) else v) old =
     (if v = Undefined then old else parseInt v)"
  by (cases "parseInt v") (auto simp: intVal_def truncRat_of_int)

lemma coerced_stock_castable:
  "castInteger (if v \<noteq> Undefined then intVal (parseInt v) else v)"
  by (cases "parseInt v") (auto simp: intVal_def truncRat_of_int)

text \<open>
  C6 (as the code has it). \<open>updateProduct\<close> coerces the numeric fields it is given with
  \<open>parseFloat\<close> and \<open>parseInt\<close> and checks nothing: whenever the store accepts the
  request, it returns success and the rows with the id hold the coerced values as they
  are. A price is stored as given, negative or not, and as \<open>null\<close> when it is \<open>NaN\<close> or a
  string that is no number; the stock is stored as \<open>parseInt\<close> leaves it, negative or
  \<open>null\<close> included. (An empty string for a price is passed on as it is, and is for the
  store to refuse.)
\<close>

theorem updateProduct_no_validation:
  assumes accepted: "fst (remote s) = None"
    and strings: "u_price u \<noteq> Str []" "u_cost_price u \<noteq> Str []" "u_sale_price u \<noteq> Str []"
  shows "\<exists>s'. updateProduct i u s =
                 (Success (firstRow (map (applyUpdate (coerceUpdates u))
                                        (filter (\<lambda>p. p_id p = i) (products s)))), s') \<and>
              products s' =
                 map (\<lambda>p. if p_id p = i then applyUpdate (coerceUpdates u) p else p) (products s) \<and>
              (\<forall>p. p_price (applyUpdate (coerceUpdates u) p) =
                    (case u_price u of
                       Undefined \<Rightarrow> p_price p | Num r \<Rightarrow> Some r | NaN \<Rightarrow> None
                     | Str w \<Rightarrow> parseFloatStr w)) \<and>
              (\<forall>p. p_stock_quantity (applyUpdate (coerceUpdates u) p) =
                    (if u_stock_quantity u = Undefined then p_stock_quantity p
                     else parseInt (u_stock_quantity u)))"
proof -
  obtain s1 where r: "remote s = (None, s1)" using accepted by (cases "remote s") auto
  note f = remote_cases [OF r]
  have cu: "u_price (coerceUpdates u) = (if truthy (u_price u) then numVal (parseFloat (u_price u)) else u_price u)"
    "u_cost_price (coerceUpdates u) = (if truthy (u_cost_price u) then numVal (parseFloat (u_cost_price u)) else u_cost_price u)"
    "u_sale_price (coerceUpdates u) = (if truthy (u_sale_price u) then numVal (parseFloat (u_sale_price u)) else u_sale_price u)"
    "u_stock_quantity (coerceUpdates u) = (if u_stock_quantity u \<noteq> Undefined then intVal (parseInt (u_stock_quantity u)) else u_stock_quantity u)"
    by (simp_all add: coerceUpdates_def Let_def)
  have cast: "castNumeric (u_price (coerceUpdates u))" "castNumeric (u_cost_price (coerceUpdates u))"
    "castNumeric (u_sale_price (coerceUpdates u))" "castInteger (u_stock_quantity (coerceUpdates u))"
    unfolding cu
    by (rule coerced_price_castable [OF strings(1)] coerced_price_castable [OF strings(2)]
        coerced_price_castable [OF strings(3)] coerced_stock_castable)+
  have 1: "updateProduct i u s =
          (Success (firstRow (map (applyUpdate (coerceUpdates u))
                                        (filter (\<lambda>p. p_id p = i) (products s)))),
           s1\<lparr>products := map (\<lambda>p. if p_id p = i then applyUpdate (coerceUpdates u) p else p)
                                 (products s)\<rparr>)"
    by (simp add: updateProduct_def updateRows_def r cast f)
  have 2: "p_price (applyUpdate (coerceUpdates u) p) =
                    (case u_price u of
                       Undefined \<Rightarrow> p_price p | Num r \<Rightarrow> Some r | NaN \<Rightarrow> None
                     | Str w \<Rightarrow> parseFloatStr w)" for p
    using strings(1) by (simp add: applyUpdate_def cu coerced_price split: jsval.splits)
  have 3: "p_stock_quantity (applyUpdate (coerceUpdates u) p) =
                    (if u_stock_quantity u = Undefined then p_stock_quantity p
                     else parseInt (u_stock_quantity u))" for p
    by (simp add: applyUpdate_def cu coerced_stock)
  from 1 2 3 show ?thesis by simp
qed

text \<open>A price typed as "19.99" and a stock of 7 for the cap.\<close>

theorem updateProduct_no_validation_witness:
  "\<exists>s'. updateProduct 2 (noUpdates\<lparr>u_price := Str ''19.99'', u_stock_quantity := Num 7\<rparr>) summaryStore =
           (Success (Some ((stockedProduct 2 ''Cap'' 7)\<lparr>p_price := Some (1999 / 100)\<rparr>)), s') \<and>
         products s' = [stockedProduct 1 ''Belt'' 0,
                        (stockedProduct 2 ''Cap'' 7)\<lparr>p_price := Some (1999 / 100)\<rparr>,
                        stockedProduct 3 ''Jeans'' 20]"
  using updateProduct_no_validation [of summaryStore
      "noUpdates\<lparr>u_price := Str ''19.99'', u_stock_quantity := Num 7\<rparr>" 2]
  by (simp add: summaryStore_def emptyStore_def remote_def noUpdates_def stockedProduct_def
      firstRow_def applyUpdate_def coerceUpdates_def setCol_def numVal_def intVal_def
      parseFloatStr_1999 truncRat_def Let_def)

text \<open>C6 as claimed, numeric fields validated and a failed coercion reported, fails: a price
  that is \<open>NaN\<close> and a stock of -3, and a price of -5, are written and reported as success.\<close>

theorem updateProduct_no_validation_counterexample:
  "updateProduct 2 (noUpdates\<lparr>u_price := NaN, u_stock_quantity := Num (- 3)\<rparr>) summaryStore =
     (Success (Some ((stockedProduct 2 ''Cap'' (- 3))\<lparr>p_price := None\<rparr>)),
      summaryStore\<lparr>products := [stockedProduct 1 ''Belt'' 0,
                                 (stockedProduct 2 ''Cap'' (- 3))\<lparr>p_price := None\<rparr>,
                                 stockedProduct 3 ''Jeans'' 20]\<rparr>) \<and>
   updateProduct 2 (noUpdates\<lparr>u_price := Num (- 5)\<rparr>) summaryStore =
     (Success (Some ((stockedProduct 2 ''Cap'' 5)\<lparr>p_price := Some (- 5)\<rparr>)),
      summaryStore\<lparr>products := [stockedProduct 1 ''Belt'' 0,
                                 (stockedProduct 2 ''Cap'' 5)\<lparr>p_price := Some (- 5)\<rparr>,
                                 stockedProduct 3 ''Jeans'' 20]\<rparr>)"
  by (simp add: updateProduct_def updateRows_def summaryStore_def emptyStore_def remote_def
      noUpdates_def stockedProduct_def firstRow_def applyUpdate_def coerceUpdates_def
      setCol_def numVal_def intVal_def truncRat_def Let_def)

section \<open>Listing products\<close>

lemma likeMatch_percent:
  "likeMatch (CHR ''%'' # ps) v \<longleftrightarrow> (\<exists>a b. v = a @ b \<and> likeMatch ps b)"
proof (induction v)
  case Nil
  show ?case by simp
next
  case (Cons c vs)
  have "likeMatch (CHR ''%'' # ps) (c # vs) \<longleftrightarrow>
          likeMatch ps (c # vs) \<or> likeMatch (CHR ''%'' # ps) vs"
    by simp
  also have "\<dots> \<longleftrightarrow> likeMatch ps (c # vs) \<or> (\<exists>a b. vs = a @ b \<and> likeMatch ps b)"
    using Cons.IH by simp
  also have "\<dots> \<longleftrightarrow> (\<exists>a b. c # vs = a @ b \<and> likeMatch ps b)"
  proof
    assume "likeMatch ps (c # vs) \<or> (\<exists>a b. vs = a @ b \<and> likeMatch ps b)"
    then show "\<exists>a b. c # vs = a @ b \<and> likeMatch ps b"
    proof
      assume "likeMatch ps (c # vs)"
      then have "c # vs = [] @ (c # vs) \<and> likeMatch ps (c # vs)" by simp
      then show ?thesis by blast
    next
      assume "\<exists>a b. vs = a @ b \<and> likeMatch ps b"
      then obtain a b where "vs = a @ b" "likeMatch ps b" by blast
      then have "c # vs = (c # a) @ b \<and> likeMatch ps b" by simp
      then show ?thesis by blast
    qed
  next
    assume "\<exists>a b. c # vs = a @ b \<and> likeMatch ps b"
    then obtain a b where ab: "c # vs = a @ b" "likeMatch ps b" by blast
    show "likeMatch ps (c # vs) \<or> (\<exists>a b. vs = a @ b \<and> likeMatch ps b)"
    proof (cases a)
      case Nil
      with ab show ?thesis by simp
    next
      case (Cons x a')
      with ab have "vs = a' @ b" by simp
      with ab(2) show ?thesis by blast
    qed
  qed
  finally show ?case .
qed

lemma likeMatch_plain:
  "\<forall>c \<in> set p. \<not> likeSpecial c \<Longrightarrow>
     likeMatch (p @ rest) v \<longleftrightarrow> (\<exists>w. v = p @ w \<and> likeMatch rest w)"
proof (induction p arbitrary: v)
  case Nil
  show ?case by simp
next
  case (Cons c p)
  then have c: "c \<noteq> CHR ''%''" "c \<noteq> CHR ''*''" "c \<noteq> CHR ''_''" "c \<noteq> CHR 0x5C"
    and p: "\<forall>c \<in> set p. \<not> likeSpecial c"
    by (simp_all add: likeSpecial_def)
  show ?case
  proof (cases v)
    case Nil
    with c show ?thesis by simp
  next
    case (Cons d vs)
    with c Cons.IH [OF p, of vs] show ?thesis by auto
  qed
qed

lemma likeMatch_any: "likeMatch ''%'' w"
proof -
  have "w = w @ [] \<and> likeMatch [] []" by simp
  then have "\<exists>a b. w = a @ b \<and> likeMatch [] b" by blast
  then show ?thesis by (simp only: likeMatch_percent)
qed

lemma lower_percent: "lower (CHR ''%'') = CHR ''%''"
  by (simp add: lower_def)

lemma of_char_lower:
  "(of_char (lower c) :: nat) =
     (if 65 \<le> (of_char c :: nat) \<and> (of_char c :: nat) \<le> 90 then of_char c + 32 else of_char c)"
  by (simp add: lower_def Let_def)

lemma likeSpecial_code:
  "likeSpecial c \<longleftrightarrow> (of_char c :: nat) \<in> {37, 42, 95, 92}"
proof -
  have e: "c = d \<longleftrightarrow> (of_char c :: nat) = of_char d" for d by simp
  show ?thesis
    unfolding likeSpecial_def e [of "CHR ''%''"] e [of "CHR ''*''"] e [of "CHR ''_''"]
      e [of "CHR 0x5C"]
    by simp
qed

lemma lower_plain: "\<not> likeSpecial c \<Longrightarrow> \<not> likeSpecial (lower c)"
  unfolding likeSpecial_code of_char_lower by auto

lemma ilike_substring:
  assumes "\<forall>c \<in> set q. \<not> likeSpecial c"
  shows "ilike (''%'' @ q @ ''%'') v \<longleftrightarrow> sublist (map lower q) (map lower v)"
proof -
  have plain: "\<forall>c \<in> set (map lower q). \<not> likeSpecial c"
    using assms by (simp add: lower_plain)
  have "ilike (''%'' @ q @ ''%'') v \<longleftrightarrow>
          likeMatch (CHR ''%'' # (map lower q @ ''%'')) (map lower v)"
    by (simp add: ilike_def lower_percent)
  also have "\<dots> \<longleftrightarrow> (\<exists>a b. map lower v = a @ b \<and> likeMatch (map lower q @ ''%'') b)"
    by (rule likeMatch_percent)
  also have "\<dots> \<longleftrightarrow> (\<exists>a b. map lower v = a @ b \<and> (\<exists>w. b = map lower q @ w))"
    by (simp only: likeMatch_plain [OF plain] likeMatch_any simp_thms)
  also have "\<dots> \<longleftrightarrow> sublist (map lower q) (map lower v)"
    by (auto simp: sublist_def)
  finally show ?thesis .
qed


text \<open>What \<open>getProducts\<close> returns when the request goes through: the products in the order of
  their names, narrowed by the category unless it is empty or "All", by the pattern
  \<open>%search%\<close> on the name unless the search string is empty, and to the active ones unless
  \<open>activeOnly\<close> is \<open>false\<close>. For a search string without pattern characters the pattern
  is a substring test on the name that ignores case.\<close>

lemma getProducts_filters:
  assumes accepted: "fst (remote s) = None"
  shows "\<exists>rows s'. getProducts coll fl s = (Success rows, s') \<and>
           sorted (map (\<lambda>p. coll (p_name p)) rows) \<and>
           rows = filter (\<lambda>p.
                    (\<forall>c. f_category fl = Some c \<longrightarrow> c \<noteq> [] \<longrightarrow> c \<noteq> ''All'' \<longrightarrow> p_category p = c) \<and>
                    (\<forall>q. f_search fl = Some q \<longrightarrow> q \<noteq> [] \<longrightarrow> ilike (''%'' @ q @ ''%'') (p_name p)) \<and>
                    (f_activeOnly fl \<noteq> Some False \<longrightarrow> p_is_active p))
                  (sort_key (\<lambda>p. coll (p_name p)) (products s)) \<and>
           (\<forall>q. (\<forall>c \<in> set q. \<not> likeSpecial c) \<longrightarrow>
                (\<forall>p. ilike (''%'' @ q @ ''%'') (p_name p) \<longleftrightarrow>
                     sublist (map lower q) (map lower (p_name p))))"
proof -
  obtain s1 where r: "remote s = (None, s1)" using accepted by (cases "remote s") auto
  define P1 where "P1 = (\<lambda>p::product. \<forall>c. f_category fl = Some c \<longrightarrow> c \<noteq> [] \<longrightarrow> c \<noteq> ''All'' \<longrightarrow> p_category p = c)"
  define P2 where "P2 = (\<lambda>p::product. \<forall>q. f_search fl = Some q \<longrightarrow> q \<noteq> [] \<longrightarrow> ilike (''%'' @ q @ ''%'') (p_name p))"
  define P3 where "P3 = (\<lambda>p::product. f_activeOnly fl \<noteq> Some False \<longrightarrow> p_is_active p)"
  let ?sorted = "sort_key (\<lambda>p. coll (p_name p)) (products s)"
  have q1: "(case f_category fl of
               Some c \<Rightarrow> if c \<noteq> [] \<and> c \<noteq> ''All'' then filter (\<lambda>p. p_category p = c) xs else xs
             | None \<Rightarrow> xs) = filter P1 xs" for xs
    by (cases "f_category fl") (simp_all add: P1_def)
  have q2: "(case f_search fl of
               Some q \<Rightarrow> if q \<noteq> [] then filter (\<lambda>p. ilike (''%'' @ q @ ''%'') (p_name p)) xs else xs
             | None \<Rightarrow> xs) = filter P2 xs" for xs
    by (cases "f_search fl") (simp_all add: P2_def)
  have q3: "(if f_activeOnly fl \<noteq> Some False then filter (\<lambda>p. p_is_active p) xs else xs) =
              filter P3 xs" for xs
    by (simp add: P3_def)
  have g: "getProducts coll fl s = (Success (filter P3 (filter P2 (filter P1 ?sorted))), s1)"
    unfolding getProducts_def Let_def q1 q2 q3 by (simp add: r)
  have f: "filter P3 (filter P2 (filter P1 ?sorted)) = filter (\<lambda>p. P1 p \<and> P2 p \<and> P3 p) ?sorted"
    by (simp add: conj_ac)
  have srt: "sorted (map (\<lambda>p. coll (p_name p)) (filter (\<lambda>p. P1 p \<and> P2 p \<and> P3 p) ?sorted))"
    by (rule sorted_filter) (rule sorted_sort_key)
  from g f srt ilike_substring show ?thesis
    unfolding P1_def P2_def P3_def by simp
qed


lemma ilike_examples:
  "\<not> ilike ''%EA%'' ''Belt''" "\<not> ilike ''%EA%'' ''Cap''" "ilike ''%EA%'' ''Jeans''"
  "\<not> ilike ''%lim2%'' ''Belt''" "\<not> ilike ''%lim2%'' ''Cap''" "\<not> ilike ''%lim2%'' ''Jeans''"
  by code_simp+

lemma summaryStore_sorted:
  "sort_key (\<lambda>p. nameOrder (p_name p)) (products summaryStore) = products summaryStore"
  by (simp add: summaryStore_def emptyStore_def stockedProduct_def nameOrder_def)


lemma getProducts_example:
  "fst (getProducts nameOrder shirtSearch summaryStore) = Success [stockedProduct 3 ''Jeans'' 20]"
proof -
  have a: "fst (remote summaryStore) = None"
    by (simp add: remote_def summaryStore_def emptyStore_def)
  from getProducts_filters [OF a, of nameOrder shirtSearch] obtain rows s' where
    all: "getProducts nameOrder shirtSearch summaryStore = (Success rows, s') \<and>
           sorted (map (\<lambda>p. nameOrder (p_name p)) rows) \<and>
           rows = filter (\<lambda>p.
                    (\<forall>c. f_category shirtSearch = Some c \<longrightarrow> c \<noteq> [] \<longrightarrow> c \<noteq> ''All'' \<longrightarrow> p_category p = c) \<and>
                    (\<forall>q. f_search shirtSearch = Some q \<longrightarrow> q \<noteq> [] \<longrightarrow> ilike (''%'' @ q @ ''%'') (p_name p)) \<and>
                    (f_activeOnly shirtSearch \<noteq> Some False \<longrightarrow> p_is_active p))
                  (sort_key (\<lambda>p. nameOrder (p_name p)) (products summaryStore)) \<and>
           (\<forall>q. (\<forall>c \<in> set q. \<not> likeSpecial c) \<longrightarrow>
                (\<forall>p. ilike (''%'' @ q @ ''%'') (p_name p) \<longleftrightarrow>
                     sublist (map lower q) (map lower (p_name p))))"
    by (elim exE) (rule that)
  note g = conjunct1 [OF all]
  note rows = conjunct1 [OF conjunct2 [OF conjunct2 [OF all]]]
  have "rows = [stockedProduct 3 ''Jeans'' 20]"
    unfolding rows summaryStore_sorted
    by (simp add: shirtSearch_def summaryStore_def emptyStore_def stockedProduct_def
        ilike_examples)
  with g show ?thesis by simp
qed

text \<open>
  C5. The claim: \<open>getProducts\<close> filters by category, by a case-insensitive substring
  match of the search string on name or barcode, by the active flag, and orders by name.
  The code matches the search string against the name only. The cap of the summary
  store has barcode LIM2; a search for "lim2" returns no product.
\<close>

theorem getProducts_barcode_search:
  "fst (getProducts nameOrder barcodeSearch summaryStore) = Success [] \<and>
   p_barcode (stockedProduct 2 ''Cap'' 5) = ''LIM2''"
proof -
  have "remote summaryStore = (None, summaryStore)"
    by (simp add: remote_def summaryStore_def emptyStore_def)
  then have "fst (getProducts nameOrder barcodeSearch summaryStore) =
     Success (filter (\<lambda>p. p_is_active p)
                (filter (\<lambda>p. ilike ''%lim2%'' (p_name p)) (products summaryStore)))"
    by (simp add: getProducts_def summaryStore_sorted Let_def barcodeSearch_def)
  moreover have "filter (\<lambda>p. ilike ''%lim2%'' (p_name p)) (products summaryStore) = []"
    by (simp add: summaryStore_def emptyStore_def stockedProduct_def ilike_examples)
  moreover have "showNat 2 = ''2''" by code_simp
  ultimately show ?thesis by (simp add: stockedProduct_def)
qed

section \<open>Two sales at once\<close>

text \<open>A client left alone performs the stock loop of \<open>createSale\<close>.\<close>

lemma runAlone_empty: "cl_cart c = [] \<Longrightarrow> runAlone n c s = (c, s)"
  by (induction n) (simp_all add: clientStep_def)

lemma getProductById_auth: "getProductById i s = (r, s') \<Longrightarrow> auth s' = auth s"
  using getProductById_cases remote_cases by blast

lemma updateProduct_auth: "updateProduct i u s = (r, s') \<Longrightarrow> auth s' = auth s"
  using updateProduct_frame by blast

lemma createInventoryTransaction_auth:
  "createInventoryTransaction td s = (r, s') \<Longrightarrow> auth s' = auth s"
  using createInventoryTransaction_cases by blast

lemma runAlone_stockLoop:
  assumes "auth s = cl_auth c" "cl_pc c = AtRead" "3 * length (cl_cart c) \<le> n"
  shows "runAlone n c s = (c\<lparr>cl_cart := []\<rparr>, stockLoop (cl_saleId c) (cl_cart c) s)"
  using assms
proof (induction "cl_cart c" arbitrary: c s n)
  case Nil
  then have "c\<lparr>cl_cart := []\<rparr> = c" by simp
  with Nil runAlone_empty [of c n s] show ?case by simp
next
  case (Cons item rest)
  have sa: "s\<lparr>auth := cl_auth c\<rparr> = s" using Cons.prems(1) by simp
  have cart: "cl_cart c = item # rest" using Cons.hyps(2) by simp
  obtain r1 s1 where g: "getProductById (i_id item) s = (r1, s1)"
    by (cases "getProductById (i_id item) s")
  have a1: "auth s1 = cl_auth c" using getProductById_auth [OF g] Cons.prems(1) by simp
  show ?case
  proof (cases r1)
    case (Failure e)
    let ?c1 = "c\<lparr>cl_cart := rest\<rparr>"
    have st: "clientStep c s = (?c1, s1)"
      by (simp add: clientStep_def cart sa Cons.prems(2) g Failure)
    obtain m where n: "n = Suc m" and m: "3 * length rest \<le> m"
      using Cons.prems(3) cart by (cases n) simp_all
    have "runAlone m ?c1 s1 = (?c1\<lparr>cl_cart := []\<rparr>, stockLoop (cl_saleId ?c1) (cl_cart ?c1) s1)"
      by (rule Cons.hyps(1)) (use a1 Cons.prems(2) m in simp_all)
    then show ?thesis by (simp add: n st cart g Failure)
  next
    case (Success product)
    let ?c1 = "c\<lparr>cl_pc := AtUpdate product\<rparr>"
    let ?u = "noUpdates\<lparr>u_stock_quantity :=
                Num (of_int (toNumber (p_stock_quantity product) - i_quantity item))\<rparr>"
    obtain r2 s2 where u: "updateProduct (i_id item) ?u s1 = (r2, s2)"
      by (cases "updateProduct (i_id item) ?u s1")
    let ?c2 = "c\<lparr>cl_pc := AtLedger\<rparr>"
    let ?td = "\<lparr> td_product_id = i_id item, td_type = ''sale'',
                  td_quantity = Num (of_int (- i_quantity item)),
                  td_notes = ''Sale '' @ showNat (cl_saleId c) \<rparr>"
    obtain r3 s3 where l: "createInventoryTransaction ?td s2 = (r3, s3)"
      by (cases "createInventoryTransaction ?td s2")
    let ?c3 = "c\<lparr>cl_cart := rest, cl_pc := AtRead\<rparr>"
    have a2: "auth s2 = cl_auth c" using updateProduct_auth [OF u] a1 by simp
    have a3: "auth s3 = cl_auth c" using createInventoryTransaction_auth [OF l] a2 by simp
    have sa1: "s1\<lparr>auth := cl_auth c\<rparr> = s1" using a1 by simp
    have sa2: "s2\<lparr>auth := cl_auth c\<rparr> = s2" using a2 by simp
    have st1: "clientStep c s = (?c1, s1)"
      by (simp add: clientStep_def cart sa Cons.prems(2) g Success)
    have st2: "clientStep ?c1 s1 = (?c2, s2)"
      using u by (simp add: clientStep_def cart sa1 Let_def)
    have st3: "clientStep ?c2 s2 = (?c3, s3)"
      using l by (simp add: clientStep_def cart sa2)
    obtain m where n: "n = Suc (Suc (Suc m))" and m: "3 * length rest \<le> m"
    proof -
      from Cons.prems(3) cart have "3 + 3 * length rest \<le> n" by simp
      then have "n = Suc (Suc (Suc (n - 3)))" "3 * length rest \<le> n - 3" by simp_all
      then show ?thesis using that by blast
    qed
    have "runAlone m ?c3 s3 = (?c3\<lparr>cl_cart := []\<rparr>, stockLoop (cl_saleId ?c3) (cl_cart ?c3) s3)"
      by (rule Cons.hyps(1)) (use a3 m in simp_all)
    moreover have "stockLoop (cl_saleId c) (item # rest) s = stockLoop (cl_saleId c) rest s3"
      using g Success u l by (simp add: Let_def)
    ultimately show ?thesis using Cons.prems(2) by (simp add: n st1 st2 st3 cart)
  qed
qed


lemma clientStep_read:
  assumes "faults s = []" "cl_cart c = item # rest" "cl_pc c = AtRead"
    and "filter (\<lambda>p. p_id p = i_id item) (products s) = [p]"
  shows "clientStep c s = (c\<lparr>cl_pc := AtUpdate p\<rparr>, s\<lparr>auth := cl_auth c\<rparr>)"
  using assms by (simp add: clientStep_def getProductById_def remote_def single_def)

lemma clientStep_update:
  assumes "faults s = []" "cl_cart c = item # rest" "cl_pc c = AtUpdate q"
  shows "clientStep c s =
           (c\<lparr>cl_pc := AtLedger\<rparr>,
            s\<lparr>auth := cl_auth c,
               products := map (\<lambda>p. if p_id p = i_id item
                                      then p\<lparr>p_stock_quantity :=
                                               Some (toNumber (p_stock_quantity q) - i_quantity item)\<rparr>
                                      else p) (products s)\<rparr>)"
proof -
  define n where "n = toNumber (p_stock_quantity q) - i_quantity item"
  let ?s = "s\<lparr>auth := cl_auth c\<rparr>"
  have f: "faults ?s = []" using assms(1) by simp
  have "clientStep c s =
          (c\<lparr>cl_pc := AtLedger\<rparr>,
           snd (updateProduct (i_id item) (noUpdates\<lparr>u_stock_quantity := Num (of_int n)\<rparr>) ?s))"
    using assms(2,3) unfolding n_def by (simp add: clientStep_def Let_def split: prod.splits)
  then show ?thesis
    unfolding updateProduct_stock_no_fault [OF f] n_def by simp
qed

lemma clientStep_ledger:
  assumes "faults s = []" "cl_cart c = item # rest" "cl_pc c = AtLedger" "cl_auth c = Session user"
  shows "clientStep c s =
           (c\<lparr>cl_cart := rest, cl_pc := AtRead\<rparr>,
            s\<lparr>auth := Session user,
               inventory_transactions := inventory_transactions s @
                 [\<lparr> t_product_id = i_id item, t_type = ''sale'',
                    t_quantity = Some (- i_quantity item), t_user_id = user,
                    t_notes = ''Sale '' @ showNat (cl_saleId c) \<rparr>]\<rparr>)"
proof -
  define q where "q = - i_quantity item"
  let ?s = "s\<lparr>auth := cl_auth c\<rparr>"
  let ?td = "\<lparr> td_product_id = i_id item, td_type = ''sale'',
                td_quantity = Num (of_int q), td_notes = ''Sale '' @ showNat (cl_saleId c) \<rparr>"
  have f: "faults ?s = []" "auth ?s = Session user" using assms(1,4) by simp_all
  have "clientStep c s = (c\<lparr>cl_cart := rest, cl_pc := AtRead\<rparr>,
                           snd (createInventoryTransaction ?td ?s))"
    using assms(2,3) unfolding q_def by (simp add: clientStep_def split: prod.splits)
  then show ?thesis
    unfolding createInventoryTransaction_no_fault [OF f] q_def
    by (simp add: assms(4) truncRat_of_int [of "- i_quantity item", simplified])
qed


lemma set_stock_twice:
  "map (\<lambda>p. if p_id p = i then p\<lparr>p_stock_quantity := w\<rparr> else p)
       (map (\<lambda>p. if p_id p = i then p\<lparr>p_stock_quantity := v\<rparr> else p) ps) =
   map (\<lambda>p. if p_id p = i then p\<lparr>p_stock_quantity := w\<rparr> else p) ps"
  by (induction ps) auto

text \<open>
  C8. The stock update of \<open>createSale\<close> is a read followed by an unconditional write of the
  value computed from what was read. For two calls selling the same product, with every
  request going through: when both read before either writes, the second write
  overwrites the first, so the stock ends at \<open>oldStock - qB\<close> although both sales are in
  the ledger (the update of the first call is lost and the stock overstated); when one
  call runs after the other, the stock ends at \<open>oldStock - qA - qB\<close>, with nothing to stop
  it below zero.
\<close>

theorem concurrent_sales_lost_update:
  assumes no_fault: "faults s = []"
    and row: "filter (\<lambda>p. p_id p = pid) (products s) = [p]"
    and stock: "p_stock_quantity p = Some oldStock"
    and ids: "i_id itemA = pid" "i_id itemB = pid"
  shows "runSchedule [False, True, False, True, False, True]
           (saleClient userA saleA [itemA]) (saleClient userB saleB [itemB]) s =
         (saleClient userA saleA [], saleClient userB saleB [],
          s\<lparr> auth := Session userB,
              products := map (\<lambda>r. if p_id r = pid
                                    then r\<lparr>p_stock_quantity := Some (oldStock - i_quantity itemB)\<rparr>
                                    else r) (products s),
              inventory_transactions := inventory_transactions s @
                [\<lparr> t_product_id = pid, t_type = ''sale'', t_quantity = Some (- i_quantity itemA),
                   t_user_id = userA, t_notes = ''Sale '' @ showNat saleA \<rparr>,
                 \<lparr> t_product_id = pid, t_type = ''sale'', t_quantity = Some (- i_quantity itemB),
                   t_user_id = userB, t_notes = ''Sale '' @ showNat saleB \<rparr>] \<rparr>) \<and>
         runSchedule [False, False, False, True, True, True]
           (saleClient userA saleA [itemA]) (saleClient userB saleB [itemB]) s =
         (saleClient userA saleA [], saleClient userB saleB [],
          s\<lparr> auth := Session userB,
              products := map (\<lambda>r. if p_id r = pid
                                    then r\<lparr>p_stock_quantity :=
                                             Some (oldStock - i_quantity itemA - i_quantity itemB)\<rparr>
                                    else r) (products s),
              inventory_transactions := inventory_transactions s @
                [\<lparr> t_product_id = pid, t_type = ''sale'', t_quantity = Some (- i_quantity itemA),
                   t_user_id = userA, t_notes = ''Sale '' @ showNat saleA \<rparr>,
                 \<lparr> t_product_id = pid, t_type = ''sale'', t_quantity = Some (- i_quantity itemB),
                   t_user_id = userB, t_notes = ''Sale '' @ showNat saleB \<rparr>] \<rparr>)"
proof -
  define A0 where "A0 = saleClient userA saleA [itemA]"
  define B0 where "B0 = saleClient userB saleB [itemB]"
  define eA where "eA = \<lparr> t_product_id = pid, t_type = ''sale'',
     t_quantity = Some (- i_quantity itemA), t_user_id = userA, t_notes = ''Sale '' @ showNat saleA \<rparr>"
  define eB where "eB = \<lparr> t_product_id = pid, t_type = ''sale'',
     t_quantity = Some (- i_quantity itemB), t_user_id = userB, t_notes = ''Sale '' @ showNat saleB \<rparr>"
  define setStock where
    "setStock = (\<lambda>v (ps :: product list).
        map (\<lambda>r. if p_id r = pid then r\<lparr>p_stock_quantity := Some v\<rparr> else r) ps)"
  have A0: "cl_cart A0 = [itemA]" "cl_pc A0 = AtRead" "cl_auth A0 = Session userA" "cl_saleId A0 = saleA"
    and B0: "cl_cart B0 = [itemB]" "cl_pc B0 = AtRead" "cl_auth B0 = Session userB" "cl_saleId B0 = saleB"
    by (simp_all add: A0_def B0_def saleClient_def)
  have rowA: "filter (\<lambda>p. p_id p = i_id itemA) (products s) = [p]"
    and rowB: "filter (\<lambda>p. p_id p = i_id itemB) (products s) = [p]"
    using row ids by simp_all
  have tn: "toNumber (p_stock_quantity p) = oldStock" by (simp add: stock toNumber_def)
  have i1: "clientStep A0 s = (A0\<lparr>cl_pc := AtUpdate p\<rparr>, s\<lparr>auth := Session userA\<rparr>)"
    using clientStep_read [OF no_fault A0(1,2) rowA] by (simp add: A0)
  have i2: "clientStep B0 (s\<lparr>auth := Session userA\<rparr>) =
              (B0\<lparr>cl_pc := AtUpdate p\<rparr>, s\<lparr>auth := Session userB\<rparr>)"
    using clientStep_read [of "s\<lparr>auth := Session userA\<rparr>" B0 itemB "[]" p] no_fault B0 rowB
    by simp
  have i3: "clientStep (A0\<lparr>cl_pc := AtUpdate p\<rparr>) (s\<lparr>auth := Session userB\<rparr>) =
              (A0\<lparr>cl_pc := AtLedger\<rparr>,
               s\<lparr>auth := Session userA,
                  products := setStock (oldStock - i_quantity itemA) (products s)\<rparr>)"
    using clientStep_update [of "s\<lparr>auth := Session userB\<rparr>" "A0\<lparr>cl_pc := AtUpdate p\<rparr>"
        itemA "[]" p] no_fault A0
    by (simp add: tn ids setStock_def)
  have i4: "clientStep (B0\<lparr>cl_pc := AtUpdate p\<rparr>)
              (s\<lparr>auth := Session userA,
                  products := setStock (oldStock - i_quantity itemA) (products s)\<rparr>) =
              (B0\<lparr>cl_pc := AtLedger\<rparr>,
               s\<lparr>auth := Session userB,
                  products := setStock (oldStock - i_quantity itemB) (products s)\<rparr>)"
    using clientStep_update [of "s\<lparr>auth := Session userA,
                  products := setStock (oldStock - i_quantity itemA) (products s)\<rparr>"
        "B0\<lparr>cl_pc := AtUpdate p\<rparr>" itemB "[]" p] no_fault B0
    by (simp add: tn ids setStock_def set_stock_twice)
  have i5: "clientStep (A0\<lparr>cl_pc := AtLedger\<rparr>)
              (s\<lparr>auth := Session userB,
                  products := setStock (oldStock - i_quantity itemB) (products s)\<rparr>) =
              (A0\<lparr>cl_cart := [], cl_pc := AtRead\<rparr>,
               s\<lparr>auth := Session userA,
                  products := setStock (oldStock - i_quantity itemB) (products s),
                  inventory_transactions := inventory_transactions s @ [eA]\<rparr>)"
    using clientStep_ledger [of "s\<lparr>auth := Session userB,
                  products := setStock (oldStock - i_quantity itemB) (products s)\<rparr>"
        "A0\<lparr>cl_pc := AtLedger\<rparr>" itemA "[]" userA] no_fault A0
    by (simp add: ids eA_def)
  have i6: "clientStep (B0\<lparr>cl_pc := AtLedger\<rparr>)
              (s\<lparr>auth := Session userA,
                  products := setStock (oldStock - i_quantity itemB) (products s),
                  inventory_transactions := inventory_transactions s @ [eA]\<rparr>) =
              (B0\<lparr>cl_cart := [], cl_pc := AtRead\<rparr>,
               s\<lparr>auth := Session userB,
                  products := setStock (oldStock - i_quantity itemB) (products s),
                  inventory_transactions := inventory_transactions s @ [eA, eB]\<rparr>)"
    using clientStep_ledger [of "s\<lparr>auth := Session userA,
                  products := setStock (oldStock - i_quantity itemB) (products s),
                  inventory_transactions := inventory_transactions s @ [eA]\<rparr>"
        "B0\<lparr>cl_pc := AtLedger\<rparr>" itemB "[]" userB] no_fault B0
    by (simp add: ids eB_def)
  have fin: "A0\<lparr>cl_cart := [], cl_pc := AtRead\<rparr> = saleClient userA saleA []"
    "B0\<lparr>cl_cart := [], cl_pc := AtRead\<rparr> = saleClient userB saleB []"
    by (simp_all add: A0_def B0_def saleClient_def)
  have interleaved:
    "runSchedule [False, True, False, True, False, True] A0 B0 s =
       (saleClient userA saleA [], saleClient userB saleB [],
        s\<lparr>auth := Session userB,
           products := setStock (oldStock - i_quantity itemB) (products s),
           inventory_transactions := inventory_transactions s @ [eA, eB]\<rparr>)"
    by (simp add: i1 i2 i3 i4 i5 i6 fin)
  let ?pA = "p\<lparr>p_stock_quantity := Some (oldStock - i_quantity itemA)\<rparr>"
  have rowB': "filter (\<lambda>p. p_id p = i_id itemB)
                 (setStock (oldStock - i_quantity itemA) (products s)) = [?pA]"
    using row by (simp add: ids setStock_def filter_id_map_same)
  have q2: "clientStep (A0\<lparr>cl_pc := AtUpdate p\<rparr>) (s\<lparr>auth := Session userA\<rparr>) =
              (A0\<lparr>cl_pc := AtLedger\<rparr>,
               s\<lparr>auth := Session userA,
                  products := setStock (oldStock - i_quantity itemA) (products s)\<rparr>)"
    using clientStep_update [of "s\<lparr>auth := Session userA\<rparr>" "A0\<lparr>cl_pc := AtUpdate p\<rparr>"
        itemA "[]" p] no_fault A0
    by (simp add: tn ids setStock_def)
  have q3: "clientStep (A0\<lparr>cl_pc := AtLedger\<rparr>)
              (s\<lparr>auth := Session userA,
                  products := setStock (oldStock - i_quantity itemA) (products s)\<rparr>) =
              (A0\<lparr>cl_cart := [], cl_pc := AtRead\<rparr>,
               s\<lparr>auth := Session userA,
                  products := setStock (oldStock - i_quantity itemA) (products s),
                  inventory_transactions := inventory_transactions s @ [eA]\<rparr>)"
    using clientStep_ledger [of "s\<lparr>auth := Session userA,
                  products := setStock (oldStock - i_quantity itemA) (products s)\<rparr>"
        "A0\<lparr>cl_pc := AtLedger\<rparr>" itemA "[]" userA] no_fault A0
    by (simp add: ids eA_def)
  have q4: "clientStep B0
              (s\<lparr>auth := Session userA,
                  products := setStock (oldStock - i_quantity itemA) (products s),
                  inventory_transactions := inventory_transactions s @ [eA]\<rparr>) =
              (B0\<lparr>cl_pc := AtUpdate ?pA\<rparr>,
               s\<lparr>auth := Session userB,
                  products := setStock (oldStock - i_quantity itemA) (products s),
                  inventory_transactions := inventory_transactions s @ [eA]\<rparr>)"
    using clientStep_read [of "s\<lparr>auth := Session userA,
                  products := setStock (oldStock - i_quantity itemA) (products s),
                  inventory_transactions := inventory_transactions s @ [eA]\<rparr>" B0 itemB "[]" ?pA]
      no_fault B0 rowB'
    by simp
  have q5: "clientStep (B0\<lparr>cl_pc := AtUpdate ?pA\<rparr>)
              (s\<lparr>auth := Session userB,
                  products := setStock (oldStock - i_quantity itemA) (products s),
                  inventory_transactions := inventory_transactions s @ [eA]\<rparr>) =
              (B0\<lparr>cl_pc := AtLedger\<rparr>,
               s\<lparr>auth := Session userB,
                  products := setStock (oldStock - i_quantity itemA - i_quantity itemB) (products s),
                  inventory_transactions := inventory_transactions s @ [eA]\<rparr>)"
    using clientStep_update [of "s\<lparr>auth := Session userB,
                  products := setStock (oldStock - i_quantity itemA) (products s),
                  inventory_transactions := inventory_transactions s @ [eA]\<rparr>"
        "B0\<lparr>cl_pc := AtUpdate ?pA\<rparr>" itemB "[]" ?pA] no_fault B0
    by (simp add: ids setStock_def set_stock_twice toNumber_def)
  have q6: "clientStep (B0\<lparr>cl_pc := AtLedger\<rparr>)
              (s\<lparr>auth := Session userB,
                  products := setStock (oldStock - i_quantity itemA - i_quantity itemB) (products s),
                  inventory_transactions := inventory_transactions s @ [eA]\<rparr>) =
              (B0\<lparr>cl_cart := [], cl_pc := AtRead\<rparr>,
               s\<lparr>auth := Session userB,
                  products := setStock (oldStock - i_quantity itemA - i_quantity itemB) (products s),
                  inventory_transactions := inventory_transactions s @ [eA, eB]\<rparr>)"
    using clientStep_ledger [of "s\<lparr>auth := Session userB,
                  products := setStock (oldStock - i_quantity itemA - i_quantity itemB) (products s),
                  inventory_transactions := inventory_transactions s @ [eA]\<rparr>"
        "B0\<lparr>cl_pc := AtLedger\<rparr>" itemB "[]" userB] no_fault B0
    by (simp add: ids eB_def)
  have sequential:
    "runSchedule [False, False, False, True, True, True] A0 B0 s =
       (saleClient userA saleA [], saleClient userB saleB [],
        s\<lparr>auth := Session userB,
           products := setStock (oldStock - i_quantity itemA - i_quantity itemB) (products s),
           inventory_transactions := inventory_transactions s @ [eA, eB]\<rparr>)"
    by (simp add: i1 q2 q3 q4 q5 q6 fin)
  from interleaved sequential show ?thesis
    unfolding A0_def B0_def eA_def eB_def setStock_def by simp
qed

text \<open>Five caps in stock, a sale of five and a sale of one: the stock ends at 4 when the
  calls interleave, and at -1 when one follows the other.\<close>

theorem concurrent_sales_lost_update_witness:
  "products (snd (snd (runSchedule [False, True, False, True, False, True]
       (saleClient ''cashier-1'' 7 [\<lparr> i_id = 2, i_name = ''Cap'', i_price = 10, i_quantity = 5 \<rparr>])
       (saleClient ''cashier-2'' 8 [\<lparr> i_id = 2, i_name = ''Cap'', i_price = 10, i_quantity = 1 \<rparr>])
       summaryStore))) =
     [stockedProduct 1 ''Belt'' 0, stockedProduct 2 ''Cap'' 4, stockedProduct 3 ''Jeans'' 20] \<and>
   products (snd (snd (runSchedule [False, False, False, True, True, True]
       (saleClient ''cashier-1'' 7 [\<lparr> i_id = 2, i_name = ''Cap'', i_price = 10, i_quantity = 5 \<rparr>])
       (saleClient ''cashier-2'' 8 [\<lparr> i_id = 2, i_name = ''Cap'', i_price = 10, i_quantity = 1 \<rparr>])
       summaryStore))) =
     [stockedProduct 1 ''Belt'' 0, stockedProduct 2 ''Cap'' (- 1), stockedProduct 3 ''Jeans'' 20]"
proof -
  have "faults summaryStore = []"
    "filter (\<lambda>p. p_id p = 2) (products summaryStore) = [stockedProduct 2 ''Cap'' 5]"
    "p_stock_quantity (stockedProduct 2 ''Cap'' 5) = Some 5"
    "i_id \<lparr> i_id = 2, i_name = ''Cap'', i_price = 10, i_quantity = 5 \<rparr> = 2"
    "i_id \<lparr> i_id = 2, i_name = ''Cap'', i_price = 10, i_quantity = 1 \<rparr> = 2"
    by (simp_all add: summaryStore_def emptyStore_def stockedProduct_def)
  note run = concurrent_sales_lost_update [OF this, of "''cashier-1''" 7 "''cashier-2''" 8]
  show ?thesis
    unfolding conjunct1 [OF run] conjunct2 [OF run]
    by (simp add: summaryStore_def emptyStore_def stockedProduct_def)
qed

end
